theory Spec2Isabelle
  imports Main
begin

section \<open>Data model\<close>

text \<open>
  The classes \<^verbatim>\<open>PomodoroTimer\<close> (the timer's state machine, with its enum
  \<^verbatim>\<open>TimerState\<close> and its interface \<^verbatim>\<open>TimerConfig\<close>), \<^verbatim>\<open>NotificationManager\<close>
  and \<^verbatim>\<open>DataManager\<close> (the records and the stored snapshot). JavaScript numbers are
  modelled as \<open>int\<close>: durations are whole minutes, remaining times whole seconds,
  timestamps whole milliseconds.
\<close>

datatype TimerState = IDLE | WORKING | SHORT_BREAK | LONG_BREAK | PAUSED

record TimerConfig =
  workDuration :: int
  shortBreakDuration :: int
  longBreakDuration :: int
  longBreakInterval :: int
  enableSound :: bool
  enableNotification :: bool

text \<open>
  The section \<^verbatim>\<open>pomodoroClock\<close> of the workspace configuration, as
  \<^verbatim>\<open>config.get(key)\<close> reads it: a key that is not set gives \<^verbatim>\<open>undefined\<close>,
  here \<open>None\<close>.
\<close>

record Configuration =
  cfg_workDuration :: "int option"
  cfg_shortBreakDuration :: "int option"
  cfg_longBreakDuration :: "int option"
  cfg_longBreakInterval :: "int option"
  cfg_enableSound :: "bool option"
  cfg_enableNotification :: "bool option"

text \<open>
  \<^verbatim>\<open>PomodoroRecord\<close>. The timer passes \<^verbatim>\<open>this.startTime!\<close>, which is
  \<^verbatim>\<open>null\<close> when no interval was started in this process, so the field is optional.
  The field names carry the prefix \<open>r_\<close> because the timer has a field
  \<^verbatim>\<open>startTime\<close> of its own.
\<close>

record PomodoroRecord =
  r_startTime :: "int option"
  r_endTime :: int
  r_duration :: int
  r_completed :: bool

text \<open>
  \<^verbatim>\<open>TimerStateData\<close>, the snapshot stored under the key \<^verbatim>\<open>timerState\<close>. Its
  fields have the names of the timer's fields in the source; here they carry the prefix
  \<open>saved_\<close>. It has no field for the pause time and none for the state before a pause.
\<close>

record TimerStateData =
  saved_state :: TimerState
  saved_remainingTime :: int
  saved_totalDuration :: int
  saved_completedPomodoros :: int
  saved_consecutivePomodoros :: int
  saved_timestamp :: int

text \<open>
  The messages the code shows with \<^verbatim>\<open>vscode.window.showInformationMessage\<close>. The
  source's texts are Chinese string literals; each constructor stands for one literal,
  with the number the template interpolates.
\<close>

datatype Message =
    MsgAlreadyWorking
  | MsgWorkStarted int
  | MsgLongBreakStarted int
  | MsgShortBreakStarted int
  | MsgCannotPause
  | MsgPaused
  | MsgCannotResume
  | MsgPauseTimeLost
  | MsgResumed
  | MsgAlreadyIdle
  | MsgCancelled
  | MsgBreakOver
  | MsgWorkEnd
  | MsgBreakEnd
  | MsgBell

text \<open>
  The fields of \<^verbatim>\<open>PomodoroTimer\<close> and what its collaborators hold:
  \<open>intervalId\<close> is whether \<^verbatim>\<open>this.intervalId\<close> is set (a countdown is scheduled);
  \<open>pomodoroRecords\<close> and \<open>timerState\<close> are the two keys of the extension's
  \<^verbatim>\<open>globalState\<close>, which outlive the process; \<open>configuration\<close> is the workspace
  configuration, read afresh by every \<^verbatim>\<open>getConfig()\<close>; \<open>shown\<close> is the sequence of
  messages shown to the user so far. The status bar item is a sink that nothing reads
  back and is left out.
\<close>

record PomodoroTimer =
  state :: TimerState
  remainingTime :: int
  totalDuration :: int
  intervalId :: bool
  completedPomodoros :: int
  consecutivePomodoros :: int
  startTime :: "int option"
  pauseTime :: "int option"
  previousState :: TimerState
  pomodoroRecords :: "PomodoroRecord list"
  timerState :: "TimerStateData option"
  configuration :: Configuration
  shown :: "Message list"

section \<open>Notification manager and data manager\<close>

definition showInformationMessage :: "Message \<Rightarrow> PomodoroTimer \<Rightarrow> PomodoroTimer" where
  "showInformationMessage m t = t\<lparr>shown := shown t @ [m]\<rparr>"

definition playSound :: "PomodoroTimer \<Rightarrow> PomodoroTimer" where
  "playSound t = showInformationMessage MsgBell t"

definition showNotification :: "Message \<Rightarrow> TimerConfig \<Rightarrow> PomodoroTimer \<Rightarrow> PomodoroTimer" where
  "showNotification m config t =
     (let t1 = (if enableNotification config then showInformationMessage m t else t)
      in if enableSound config then playSound t1 else t1)"

definition notifyWorkEnd :: "TimerConfig \<Rightarrow> PomodoroTimer \<Rightarrow> PomodoroTimer" where
  "notifyWorkEnd config t = showNotification MsgWorkEnd config t"

definition notifyBreakEnd :: "TimerConfig \<Rightarrow> PomodoroTimer \<Rightarrow> PomodoroTimer" where
  "notifyBreakEnd config t = showNotification MsgBreakEnd config t"

definition getPomodoroRecords :: "PomodoroTimer \<Rightarrow> PomodoroRecord list" where
  "getPomodoroRecords t = pomodoroRecords t"

definition recordPomodoro :: "PomodoroRecord \<Rightarrow> PomodoroTimer \<Rightarrow> PomodoroTimer" where
  "recordPomodoro r t = t\<lparr>pomodoroRecords := getPomodoroRecords t @ [r]\<rparr>"

definition saveTimerState :: "TimerStateData \<Rightarrow> PomodoroTimer \<Rightarrow> PomodoroTimer" where
  "saveTimerState d t = t\<lparr>timerState := Some d\<rparr>"

definition getTimerState :: "PomodoroTimer \<Rightarrow> TimerStateData option" where
  "getTimerState t = timerState t"

section \<open>The timer\<close>

text \<open>
  \<^verbatim>\<open>config.get(key) || d\<close>: the default replaces a value that is not set and also
  the value 0, which is falsy.
\<close>

definition orDefault :: "int option \<Rightarrow> int \<Rightarrow> int" where
  "orDefault v d = (case v of None \<Rightarrow> d | Some n \<Rightarrow> if n = 0 then d else n)"

definition getConfig :: "Configuration \<Rightarrow> TimerConfig" where
  "getConfig c =
     \<lparr>workDuration = orDefault (cfg_workDuration c) 25,
      shortBreakDuration = orDefault (cfg_shortBreakDuration c) 5,
      longBreakDuration = orDefault (cfg_longBreakDuration c) 15,
      longBreakInterval = orDefault (cfg_longBreakInterval c) 4,
      enableSound = (cfg_enableSound c \<noteq> Some False),
      enableNotification = (cfg_enableNotification c \<noteq> Some False)\<rparr>"

definition stopTimer :: "PomodoroTimer \<Rightarrow> PomodoroTimer" where
  "stopTimer t = t\<lparr>intervalId := False\<rparr>"

text \<open>\<^verbatim>\<open>startTimer\<close> schedules the countdown; the callback itself is \<open>tick\<close> below.\<close>

definition startTimer :: "PomodoroTimer \<Rightarrow> PomodoroTimer" where
  "startTimer t = (stopTimer t)\<lparr>intervalId := True\<rparr>"

text \<open>Every operation takes the value of \<^verbatim>\<open>Date.now()\<close> as its first argument.\<close>

definition saveState :: "int \<Rightarrow> PomodoroTimer \<Rightarrow> PomodoroTimer" where
  "saveState now t =
     (if state t \<noteq> IDLE then
        saveTimerState
          \<lparr>saved_state = state t,
           saved_remainingTime = remainingTime t,
           saved_totalDuration = totalDuration t,
           saved_completedPomodoros = completedPomodoros t,
           saved_consecutivePomodoros = consecutivePomodoros t,
           saved_timestamp = now\<rparr> t
      else t)"

definition updateStatusBar :: "int \<Rightarrow> PomodoroTimer \<Rightarrow> PomodoroTimer" where
  "updateStatusBar now t = saveState now t"

definition resetTimer :: "int \<Rightarrow> PomodoroTimer \<Rightarrow> PomodoroTimer" where
  "resetTimer now t =
     saveState now
       (t\<lparr>state := IDLE, remainingTime := 0, totalDuration := 0, startTime := None,
          pauseTime := None, previousState := IDLE\<rparr>)"

definition startWork :: "int \<Rightarrow> PomodoroTimer \<Rightarrow> PomodoroTimer" where
  "startWork now t =
     (if state t = WORKING then showInformationMessage MsgAlreadyWorking t
      else
        let t1 = stopTimer t;
            config = getConfig (configuration t1);
            t2 = t1\<lparr>totalDuration := workDuration config * 60\<rparr>;
            t3 = t2\<lparr>remainingTime := totalDuration t2\<rparr>;
            t4 = t3\<lparr>state := WORKING, startTime := Some now\<rparr>;
            t5 = startTimer t4;
            t6 = updateStatusBar now t5
        in showInformationMessage (MsgWorkStarted (workDuration config)) t6)"

definition startBreak :: "int \<Rightarrow> PomodoroTimer \<Rightarrow> PomodoroTimer" where
  "startBreak now t =
     (let t1 = stopTimer t;
          config = getConfig (configuration t1);
          isLongBreak = (consecutivePomodoros t1 \<ge> longBreakInterval config);
          t2 = (if isLongBreak then
                  showInformationMessage (MsgLongBreakStarted (longBreakDuration config))
                    (t1\<lparr>totalDuration := longBreakDuration config * 60, state := LONG_BREAK\<rparr>)
                else
                  showInformationMessage (MsgShortBreakStarted (shortBreakDuration config))
                    (t1\<lparr>totalDuration := shortBreakDuration config * 60, state := SHORT_BREAK\<rparr>));
          t3 = t2\<lparr>remainingTime := totalDuration t2, startTime := Some now\<rparr>;
          t4 = startTimer t3
      in updateStatusBar now t4)"

definition pause :: "int \<Rightarrow> PomodoroTimer \<Rightarrow> PomodoroTimer" where
  "pause now t =
     (if state t \<noteq> WORKING \<and> state t \<noteq> SHORT_BREAK \<and> state t \<noteq> LONG_BREAK then
        showInformationMessage MsgCannotPause t
      else
        let t1 = stopTimer t;
            t2 = t1\<lparr>previousState := state t1\<rparr>;
            t3 = t2\<lparr>pauseTime := Some now, state := PAUSED\<rparr>;
            t4 = updateStatusBar now t3
        in showInformationMessage MsgPaused t4)"

text \<open>\<^verbatim>\<open>!this.pauseTime\<close> holds for \<^verbatim>\<open>null\<close> and for the number 0.\<close>

definition resume :: "int \<Rightarrow> PomodoroTimer \<Rightarrow> PomodoroTimer" where
  "resume now t =
     (if state t \<noteq> PAUSED then showInformationMessage MsgCannotResume t
      else if pauseTime t = None \<or> pauseTime t = Some 0 then
        showInformationMessage MsgPauseTimeLost t
      else
        let t1 = t\<lparr>state := previousState t, pauseTime := None\<rparr>;
            t2 = startTimer t1;
            t3 = updateStatusBar now t2
        in showInformationMessage MsgResumed t3)"

definition cancel :: "int \<Rightarrow> PomodoroTimer \<Rightarrow> PomodoroTimer" where
  "cancel now t =
     (if state t = IDLE then showInformationMessage MsgAlreadyIdle t
      else
        let t1 = stopTimer t;
            t2 = (if state t1 = WORKING then t1\<lparr>consecutivePomodoros := 0\<rparr> else t1);
            t3 = resetTimer now t2;
            t4 = updateStatusBar now t3
        in showInformationMessage MsgCancelled t4)"

definition handleTimerEnd :: "int \<Rightarrow> PomodoroTimer \<Rightarrow> PomodoroTimer" where
  "handleTimerEnd now t =
     (let t1 = stopTimer t;
          config = getConfig (configuration t1);
          t2 = (if state t1 = WORKING then
                  let ta = t1\<lparr>completedPomodoros := completedPomodoros t1 + 1\<rparr>;
                      tb = ta\<lparr>consecutivePomodoros := consecutivePomodoros ta + 1\<rparr>;
                      tc = recordPomodoro
                             \<lparr>r_startTime = startTime tb, r_endTime = now,
                              r_duration = workDuration config, r_completed = True\<rparr> tb;
                      td = notifyWorkEnd config tc
                  in startBreak now td
                else if state t1 = SHORT_BREAK \<or> state t1 = LONG_BREAK then
                  let ta = notifyBreakEnd config t1;
                      tb = (if state ta = LONG_BREAK then ta\<lparr>consecutivePomodoros := 0\<rparr>
                            else ta);
                      tc = resetTimer now tb
                  in showInformationMessage MsgBreakOver tc
                else t1)
      in updateStatusBar now t2)"

text \<open>
  The callback that \<^verbatim>\<open>startTimer\<close> schedules every second. It runs only while the
  interval is set; \<^verbatim>\<open>stopTimer\<close> clears it.
\<close>

definition tick :: "int \<Rightarrow> PomodoroTimer \<Rightarrow> PomodoroTimer" where
  "tick now t =
     (if intervalId t then
        let t1 = t\<lparr>remainingTime := remainingTime t - 1\<rparr>
        in if remainingTime t1 \<le> 0 then handleTimerEnd now t1 else updateStatusBar now t1
      else t)"

text \<open>\<open>div\<close> on \<open>int\<close> rounds down, as \<^verbatim>\<open>Math.floor\<close> does.\<close>

definition restoreState :: "int \<Rightarrow> PomodoroTimer \<Rightarrow> PomodoroTimer" where
  "restoreState now t =
     (case getTimerState t of
        None \<Rightarrow> t
      | Some savedState \<Rightarrow>
          let t1 = t\<lparr>state := saved_state savedState,
                     remainingTime := saved_remainingTime savedState,
                     totalDuration := saved_totalDuration savedState,
                     completedPomodoros := saved_completedPomodoros savedState,
                     consecutivePomodoros := saved_consecutivePomodoros savedState\<rparr>;
              t2 = (if state t1 = WORKING \<or> state t1 = SHORT_BREAK \<or> state t1 = LONG_BREAK then
                      let elapsed = (now - saved_timestamp savedState) div 1000;
                          ta = t1\<lparr>remainingTime := max 0 (remainingTime t1 - elapsed)\<rparr>
                      in if remainingTime ta > 0 then startTimer ta else handleTimerEnd now ta
                    else t1)
          in updateStatusBar now t2)"

definition dispose :: "int \<Rightarrow> PomodoroTimer \<Rightarrow> PomodoroTimer" where
  "dispose now t = saveState now (stopTimer t)"

text \<open>
  A new process: the field initialisers of the class give the timer's fields, the
  \<^verbatim>\<open>globalState\<close> keeps what the last process stored. The extension's
  \<^verbatim>\<open>activate\<close> then calls \<^verbatim>\<open>updateStatusBar()\<close> and \<^verbatim>\<open>restoreState()\<close>.
\<close>

definition newTimer :: "PomodoroTimer \<Rightarrow> PomodoroTimer" where
  "newTimer old =
     \<lparr>state = IDLE, remainingTime = 0, totalDuration = 0, intervalId = False,
      completedPomodoros = 0, consecutivePomodoros = 0, startTime = None, pauseTime = None,
      previousState = IDLE, pomodoroRecords = pomodoroRecords old,
      timerState = timerState old, configuration = configuration old, shown = []\<rparr>"

definition activate :: "int \<Rightarrow> PomodoroTimer \<Rightarrow> PomodoroTimer" where
  "activate now old = restoreState now (updateStatusBar now (newTimer old))"

text \<open>The operations a user or the host can trigger, and a run of them at given times.\<close>

datatype Action = StartWork | Pause | Resume | Cancel | Tick | RestoreState | Dispose

fun step :: "int \<Rightarrow> Action \<Rightarrow> PomodoroTimer \<Rightarrow> PomodoroTimer" where
  "step now StartWork t = startWork now t"
| "step now Pause t = pause now t"
| "step now Resume t = resume now t"
| "step now Cancel t = cancel now t"
| "step now Tick t = tick now t"
| "step now RestoreState t = restoreState now t"
| "step now Dispose t = dispose now t"

primrec run :: "(int \<times> Action) list \<Rightarrow> PomodoroTimer \<Rightarrow> PomodoroTimer" where
  "run [] t = t"
| "run (e # es) t = run es (step (fst e) (snd e) t)"

text \<open>The countdown callback firing once at each of the given times.\<close>

primrec ticks :: "int list \<Rightarrow> PomodoroTimer \<Rightarrow> PomodoroTimer" where
  "ticks [] t = t"
| "ticks (now # nows) t = ticks nows (tick now t)"

section \<open>History: daily aggregates and export\<close>

text \<open>
  A record's \<^verbatim>\<open>startTime\<close> that is \<^verbatim>\<open>null\<close> compares as the number 0, and
  \<^verbatim>\<open>new Date(null)\<close> is the time 0.
\<close>

definition toNumber :: "int option \<Rightarrow> int" where
  "toNumber v = (case v of None \<Rightarrow> 0 | Some n \<Rightarrow> n)"

text \<open>The predicate of \<^verbatim>\<open>records.filter\<close> in \<^verbatim>\<open>getLast7DaysData\<close>.\<close>

definition inDay :: "int \<Rightarrow> PomodoroRecord \<Rightarrow> bool" where
  "inDay dateStart r =
     (let dateEnd = dateStart + 24 * 60 * 60 * 1000
      in toNumber (r_startTime r) \<ge> dateStart \<and> toNumber (r_startTime r) < dateEnd
         \<and> r_completed r)"

record DayData =
  date :: string
  completed :: int
  workTime :: int

text \<open>
  The calendar is the platform's: \<open>localMidnight i\<close> stands for
  \<^verbatim>\<open>new Date(y, m, d).getTime()\<close> of the local date \<open>i\<close> days before today (what
  \<^verbatim>\<open>setDate(getDate() - i)\<close> reaches), and \<open>localeDate i\<close> for that date's
  \<^verbatim>\<open>toLocaleDateString('zh-CN')\<close>. Both are parameters.
\<close>

definition dayData :: "(int \<Rightarrow> int) \<Rightarrow> (int \<Rightarrow> string) \<Rightarrow> PomodoroRecord list \<Rightarrow> int \<Rightarrow> DayData" where
  "dayData localMidnight localeDate records i =
     (let dateStart = localMidnight i;
          dayRecords = filter (inDay dateStart) records
      in \<lparr>date = localeDate i,
          completed = int (length dayRecords),
          workTime = foldl (\<lambda>total r. total + r_duration r) 0 dayRecords\<rparr>)"

text \<open>The loop \<^verbatim>\<open>for (let i = 6; i >= 0; i--)\<close>, pushing one entry per round.\<close>

function last7Loop ::
  "(int \<Rightarrow> int) \<Rightarrow> (int \<Rightarrow> string) \<Rightarrow> PomodoroRecord list \<Rightarrow> int \<Rightarrow> DayData list \<Rightarrow> DayData list" where
  "last7Loop localMidnight localeDate records i result =
     (if i \<ge> 0 then
        last7Loop localMidnight localeDate records (i - 1)
          (result @ [dayData localMidnight localeDate records i])
      else result)"
  by pat_completeness auto
termination
  by (relation "measure (\<lambda>(m, l, rs, i, res). nat (i + 1))") auto

definition getLast7DaysData ::
  "(int \<Rightarrow> int) \<Rightarrow> (int \<Rightarrow> string) \<Rightarrow> PomodoroTimer \<Rightarrow> DayData list" where
  "getLast7DaysData localMidnight localeDate t =
     last7Loop localMidnight localeDate (getPomodoroRecords t) 6 []"

text \<open>Decimal digits of a number, as a template literal prints an integer.\<close>

fun showNat :: "nat \<Rightarrow> string" where
  "showNat n =
     (if n < 10 then [''0123456789'' ! n]
      else showNat (n div 10) @ [''0123456789'' ! (n mod 10)])"

definition showInt :: "int \<Rightarrow> string" where
  "showInt i = (if i < 0 then CHR ''-'' # showNat (nat (- i)) else showNat (nat i))"

text \<open>
  \<^verbatim>\<open>exportToCSV\<close>. \<open>toLocaleString\<close> stands for
  \<^verbatim>\<open>new Date(ms).toLocaleString('zh-CN')\<close> and is a parameter. The header and the two
  status labels are Chinese literals in the source; the English words here stand for them
  (the header has its three commas and its final line feed, the labels have neither).
\<close>

definition csvHeader :: string where
  "csvHeader = ''start,end,duration(min),status'' @ [CHR 0x0A]"

definition csvRow :: "(int \<Rightarrow> string) \<Rightarrow> PomodoroRecord \<Rightarrow> string" where
  "csvRow toLocaleString r =
     (let startTime = toLocaleString (toNumber (r_startTime r));
          endTime = toLocaleString (r_endTime r);
          status = (if r_completed r then ''completed'' else ''cancelled'')
      in startTime @ '','' @ endTime @ '','' @ showInt (r_duration r) @ '','' @ status
         @ [CHR 0x0A])"

definition exportToCSV :: "(int \<Rightarrow> string) \<Rightarrow> PomodoroTimer \<Rightarrow> string" where
  "exportToCSV toLocaleString t =
     foldl (\<lambda>csv r. csv @ csvRow toLocaleString r) csvHeader (getPomodoroRecords t)"

text \<open>
  Splitting a text at every occurrence of a separator character, as
  \<^verbatim>\<open>String.prototype.split\<close> does: the pieces between the separators, so one more
  piece than there are separators, the last one empty when the text ends with a separator.
\<close>

fun splitOn :: "char \<Rightarrow> string \<Rightarrow> string list" where
  "splitOn sep [] = [[]]"
| "splitOn sep (c # cs) =
     (if c = sep then [] # splitOn sep cs
      else (case splitOn sep cs of
              [] \<Rightarrow> [[c]]
            | piece # pieces \<Rightarrow> (c # piece) # pieces))"

section \<open>Concrete timers\<close>

definition noConfiguration :: Configuration where
  "noConfiguration =
     \<lparr>cfg_workDuration = None, cfg_shortBreakDuration = None, cfg_longBreakDuration = None,
      cfg_longBreakInterval = None, cfg_enableSound = None, cfg_enableNotification = None\<rparr>"

text \<open>The timer of a first process: nothing stored, nothing configured.\<close>

definition idleTimer :: PomodoroTimer where
  "idleTimer =
     \<lparr>state = IDLE, remainingTime = 0, totalDuration = 0, intervalId = False,
      completedPomodoros = 0, consecutivePomodoros = 0, startTime = None, pauseTime = None,
      previousState = IDLE, pomodoroRecords = [], timerState = None,
      configuration = noConfiguration, shown = []\<rparr>"

section \<open>Notions used to state the properties\<close>

text \<open>What \<^verbatim>\<open>showNotification\<close> shows for a message under a configuration.\<close>

definition notificationMessages :: "Message \<Rightarrow> TimerConfig \<Rightarrow> Message list" where
  "notificationMessages m config =
     (if enableNotification config then [m] else [])
     @ (if enableSound config then [MsgBell] else [])"

text \<open>
  The remaining seconds of a snapshot when it is read back at time \<open>now\<close>, and the timer
  with a snapshot's fields loaded and a given remaining time.
\<close>

definition remainingAfter :: "int \<Rightarrow> TimerStateData \<Rightarrow> int" where
  "remainingAfter now s = max 0 (saved_remainingTime s - (now - saved_timestamp s) div 1000)"

definition loaded :: "TimerStateData \<Rightarrow> int \<Rightarrow> PomodoroTimer \<Rightarrow> PomodoroTimer" where
  "loaded s r t =
     t\<lparr>state := saved_state s,
       totalDuration := saved_totalDuration s,
       completedPomodoros := saved_completedPomodoros s,
       consecutivePomodoros := saved_consecutivePomodoros s,
       remainingTime := r\<rparr>"

text \<open>
  A snapshot of a work interval written at time 1000 with 1500 seconds left, and a new
  process that finds it in the store.
\<close>

definition workSnapshot :: TimerStateData where
  "workSnapshot =
     \<lparr>saved_state = WORKING, saved_remainingTime = 1500, saved_totalDuration = 1500,
      saved_completedPomodoros = 0, saved_consecutivePomodoros = 0, saved_timestamp = 1000\<rparr>"

definition staleTimer :: PomodoroTimer where
  "staleTimer = idleTimer\<lparr>timerState := Some workSnapshot\<rparr>"

text \<open>
  A timer configured for work intervals of one minute, and the times of \<open>n\<close> callbacks of
  the countdown, one a second, after the time \<open>start\<close>.
\<close>

definition oneMinuteTimer :: PomodoroTimer where
  "oneMinuteTimer = idleTimer\<lparr>configuration := noConfiguration\<lparr>cfg_workDuration := Some 1\<rparr>\<rparr>"

definition ticksFrom :: "int \<Rightarrow> nat \<Rightarrow> int list" where
  "ticksFrom start n = map (\<lambda>k. start + 1000 * int k) [1..<Suc n]"

text \<open>
  What a step may do to the stored snapshot: leave it as it was, or store one whose state
  is not Idle. And a store that holds no snapshot in state Idle.
\<close>

definition writtenNonIdle :: "PomodoroTimer \<Rightarrow> PomodoroTimer \<Rightarrow> bool" where
  "writtenNonIdle t t' =
     (case timerState t' of
        None \<Rightarrow> timerState t = None
      | Some s \<Rightarrow> saved_state s \<noteq> IDLE \<or> timerState t = Some s)"

definition snapshotNonIdle :: "PomodoroTimer \<Rightarrow> bool" where
  "snapshotNonIdle t = (case timerState t of None \<Rightarrow> True | Some s \<Rightarrow> saved_state s \<noteq> IDLE)"

text \<open>
  A short break of five minutes with one second left, as the countdown's callback stored
  it at time 1799000: the break that follows a first work interval of 25 minutes started
  at time 0 under the default configuration.
\<close>

definition breakSnapshot :: TimerStateData where
  "breakSnapshot =
     \<lparr>saved_state = SHORT_BREAK, saved_remainingTime = 1, saved_totalDuration = 300,
      saved_completedPomodoros = 1, saved_consecutivePomodoros = 1,
      saved_timestamp = 1799000\<rparr>"

definition endingBreak :: PomodoroTimer where
  "endingBreak =
     idleTimer\<lparr>state := SHORT_BREAK, remainingTime := 1, totalDuration := 300,
       intervalId := True, completedPomodoros := 1, consecutivePomodoros := 1,
       startTime := Some 1500000,
       pomodoroRecords := [\<lparr>r_startTime = Some 0, r_endTime = 1500000, r_duration = 25,
         r_completed = True\<rparr>],
       timerState := Some breakSnapshot,
       shown := [MsgWorkStarted 25, MsgWorkEnd, MsgBell, MsgShortBreakStarted 5]\<rparr>"

text \<open>
  The fourth work interval in a row with one second left: three intervals completed, no
  long break yet, the default configuration (long break after four).
\<close>

definition fourthPomodoro :: PomodoroTimer where
  "fourthPomodoro =
     idleTimer\<lparr>state := WORKING, remainingTime := 1, totalDuration := 1500,
       intervalId := True, completedPomodoros := 3, consecutivePomodoros := 3,
       startTime := Some 6000000,
       timerState := Some \<lparr>saved_state = WORKING, saved_remainingTime = 1,
         saved_totalDuration = 1500, saved_completedPomodoros = 3,
         saved_consecutivePomodoros = 3, saved_timestamp = 7499000\<rparr>\<rparr>"

text \<open>Calls of \<^verbatim>\<open>resume()\<close> at the given times.\<close>

definition resumeAt :: "int list \<Rightarrow> (int \<times> Action) list" where
  "resumeAt nows = map (\<lambda>now. (now, Resume)) nows"

text \<open>A timer whose work duration is configured as 0 minutes.\<close>

definition zeroMinuteTimer :: PomodoroTimer where
  "zeroMinuteTimer = idleTimer\<lparr>configuration := noConfiguration\<lparr>cfg_workDuration := Some 0\<rparr>\<rparr>"

text \<open>
  The aggregate of one calendar day in the specification's words: the completed records
  whose start time lies in the window of 24 hours from the day's start are counted, and
  their durations summed.
\<close>

definition dayAggregate :: "int \<Rightarrow> string \<Rightarrow> PomodoroRecord list \<Rightarrow> DayData" where
  "dayAggregate dayStart label records =
     (let counted = filter (\<lambda>r. r_completed r \<and> dayStart \<le> toNumber (r_startTime r)
                                \<and> toNumber (r_startTime r) < dayStart + 24 * 60 * 60 * 1000)
                      records
      in \<lparr>date = label, completed = int (length counted),
          workTime = sum_list (map r_duration counted)\<rparr>)"

text \<open>A timer configured for work intervals of one minute and a long break after each.\<close>

definition eagerTimer :: PomodoroTimer where
  "eagerTimer =
     idleTimer\<lparr>configuration :=
       noConfiguration\<lparr>cfg_workDuration := Some 1, cfg_longBreakInterval := Some 1\<rparr>\<rparr>"

section \<open>Auxiliary facts\<close>

lemmas timer_defs =
  showInformationMessage_def playSound_def showNotification_def notifyWorkEnd_def
  notifyBreakEnd_def getPomodoroRecords_def recordPomodoro_def saveTimerState_def
  getTimerState_def stopTimer_def startTimer_def saveState_def updateStatusBar_def
  resetTimer_def

lemma showNotification_shown:
  "showNotification m config t = t\<lparr>shown := shown t @ notificationMessages m config\<rparr>"
  by (simp add: showNotification_def notificationMessages_def showInformationMessage_def
      playSound_def)

lemma saveState_idem: "saveState now (saveState now t) = saveState now t"
  by (simp add: saveState_def saveTimerState_def)

lemma startBreak_eq:
  "startBreak now t =
     (let config = getConfig (configuration t);
          long = (consecutivePomodoros t \<ge> longBreakInterval config);
          dur = (if long then longBreakDuration config else shortBreakDuration config);
          st = (if long then LONG_BREAK else SHORT_BREAK)
      in t\<lparr>state := st, remainingTime := dur * 60, totalDuration := dur * 60,
            intervalId := True, startTime := Some now,
            timerState := Some \<lparr>saved_state = st, saved_remainingTime = dur * 60,
              saved_totalDuration = dur * 60,
              saved_completedPomodoros = completedPomodoros t,
              saved_consecutivePomodoros = consecutivePomodoros t,
              saved_timestamp = now\<rparr>,
            shown := shown t
              @ [if long then MsgLongBreakStarted dur else MsgShortBreakStarted dur]\<rparr>)"
  by (simp add: startBreak_def Let_def stopTimer_def startTimer_def updateStatusBar_def
      saveState_def saveTimerState_def showInformationMessage_def)

lemma handleTimerEnd_working:
  assumes "state t = WORKING"
  shows "handleTimerEnd now t =
     (let config = getConfig (configuration t);
          n = consecutivePomodoros t + 1;
          long = (n \<ge> longBreakInterval config);
          dur = (if long then longBreakDuration config else shortBreakDuration config);
          st = (if long then LONG_BREAK else SHORT_BREAK)
      in t\<lparr>state := st, remainingTime := dur * 60, totalDuration := dur * 60,
            intervalId := True,
            completedPomodoros := completedPomodoros t + 1,
            consecutivePomodoros := n,
            startTime := Some now,
            pomodoroRecords := pomodoroRecords t @
              [\<lparr>r_startTime = startTime t, r_endTime = now,
                r_duration = workDuration config, r_completed = True\<rparr>],
            timerState := Some \<lparr>saved_state = st, saved_remainingTime = dur * 60,
              saved_totalDuration = dur * 60,
              saved_completedPomodoros = completedPomodoros t + 1,
              saved_consecutivePomodoros = n,
              saved_timestamp = now\<rparr>,
            shown := shown t @ notificationMessages MsgWorkEnd config
              @ [if long then MsgLongBreakStarted dur else MsgShortBreakStarted dur]\<rparr>)"
  using assms
  by (simp add: handleTimerEnd_def startBreak_eq showNotification_shown notifyWorkEnd_def
      recordPomodoro_def getPomodoroRecords_def stopTimer_def updateStatusBar_def
      saveState_def saveTimerState_def Let_def)

lemma handleTimerEnd_break:
  assumes "state t = SHORT_BREAK \<or> state t = LONG_BREAK"
  shows "handleTimerEnd now t =
     t\<lparr>state := IDLE, remainingTime := 0, totalDuration := 0, intervalId := False,
       consecutivePomodoros := (if state t = LONG_BREAK then 0 else consecutivePomodoros t),
       startTime := None, pauseTime := None, previousState := IDLE,
       shown := shown t @ notificationMessages MsgBreakEnd (getConfig (configuration t))
         @ [MsgBreakOver]\<rparr>"
  using assms
  by (auto simp add: handleTimerEnd_def showNotification_shown notifyBreakEnd_def
      resetTimer_def stopTimer_def updateStatusBar_def showInformationMessage_def
      saveState_def saveTimerState_def Let_def)

lemma handleTimerEnd_other:
  assumes "state t = IDLE \<or> state t = PAUSED"
  shows "handleTimerEnd now t = saveState now (t\<lparr>intervalId := False\<rparr>)"
  using assms
  by (auto simp add: handleTimerEnd_def stopTimer_def updateStatusBar_def Let_def)

lemma saveState_handleTimerEnd: "saveState now (handleTimerEnd now t) = handleTimerEnd now t"
  by (simp add: handleTimerEnd_def Let_def updateStatusBar_def saveState_idem)

lemma handleTimerEnd_intervalId: "handleTimerEnd now (t\<lparr>intervalId := b\<rparr>) = handleTimerEnd now t"
  by (simp add: handleTimerEnd_def stopTimer_def)

lemma restoreState_resumes:
  assumes "timerState t = Some s"
    and "saved_state s = WORKING \<or> saved_state s = SHORT_BREAK \<or> saved_state s = LONG_BREAK"
    and "0 < remainingAfter now s"
  shows "restoreState now t =
           saveState now ((loaded s (remainingAfter now s) t)\<lparr>intervalId := True\<rparr>)"
  using assms
  by (cases t) (auto simp add: restoreState_def getTimerState_def loaded_def remainingAfter_def Let_def
      startTimer_def stopTimer_def updateStatusBar_def)

lemma restoreState_completes:
  assumes "timerState t = Some s"
    and "saved_state s = WORKING \<or> saved_state s = SHORT_BREAK \<or> saved_state s = LONG_BREAK"
    and "remainingAfter now s \<le> 0"
  shows "restoreState now t = handleTimerEnd now (loaded s 0 t)"
proof -
  have r: "max 0 (saved_remainingTime s - (now - saved_timestamp s) div 1000) = 0"
    using assms(3) by (simp add: remainingAfter_def)
  have "restoreState now t = updateStatusBar now (handleTimerEnd now (loaded s 0 t))"
    using assms(1,2) r
    by (cases t) (auto simp add: restoreState_def getTimerState_def loaded_def Let_def)
  then show ?thesis by (simp add: updateStatusBar_def saveState_handleTimerEnd)
qed

lemma restoreState_paused:
  assumes "timerState t = Some s" and "saved_state s = PAUSED"
  shows "restoreState now t = saveState now (loaded s (saved_remainingTime s) t)"
  using assms
  by (cases t) (auto simp add: restoreState_def getTimerState_def loaded_def Let_def updateStatusBar_def)

lemma tick_last_second:
  assumes "intervalId t" and "remainingTime t \<le> 1"
  shows "tick now t = handleTimerEnd now (t\<lparr>remainingTime := remainingTime t - 1\<rparr>)"
  using assms by (simp add: tick_def Let_def)

lemma tick_counting:
  assumes "intervalId t" and "1 < remainingTime t"
  shows "tick now t = saveState now (t\<lparr>remainingTime := remainingTime t - 1\<rparr>)"
  using assms by (simp add: tick_def Let_def updateStatusBar_def)

lemma ticks_append: "ticks (xs @ ys) t = ticks ys (ticks xs t)"
  by (induction xs arbitrary: t) simp_all

lemma saveState_overwrite:
  "saveState m ((saveState n t)\<lparr>remainingTime := k\<rparr>) = saveState m (t\<lparr>remainingTime := k\<rparr>)"
  by (simp add: saveState_def saveTimerState_def)

lemma ticks_counting:
  assumes "intervalId t" and "int (length nows) < remainingTime t" and "nows \<noteq> []"
  shows "ticks nows t =
           saveState (last nows) (t\<lparr>remainingTime := remainingTime t - int (length nows)\<rparr>)"
  using assms
proof (induction nows arbitrary: t)
  case Nil
  then show ?case by simp
next
  case (Cons n ns)
  let ?t1 = "saveState n (t\<lparr>remainingTime := remainingTime t - 1\<rparr>)"
  have step: "tick n t = ?t1"
    using Cons.prems by (simp add: tick_counting)
  show ?case
  proof (cases "ns = []")
    case True
    then show ?thesis by (simp add: step)
  next
    case False
    have i: "intervalId ?t1"
      using Cons.prems by (simp add: saveState_def saveTimerState_def)
    have r: "remainingTime ?t1 = remainingTime t - 1"
      by (simp add: saveState_def saveTimerState_def)
    have "ticks ns ?t1 =
        saveState (last ns) (?t1\<lparr>remainingTime := remainingTime ?t1 - int (length ns)\<rparr>)"
      using Cons.prems False by (intro Cons.IH i) (simp_all add: r)
    then show ?thesis
      using False by (simp add: step r saveState_overwrite diff_diff_eq add.commute)
  qed
qed

lemma startWork_starts:
  assumes "state t \<noteq> WORKING"
  shows "startWork now t =
     (let d = workDuration (getConfig (configuration t))
      in t\<lparr>state := WORKING, remainingTime := d * 60, totalDuration := d * 60,
            intervalId := True, startTime := Some now,
            timerState := Some \<lparr>saved_state = WORKING, saved_remainingTime = d * 60,
              saved_totalDuration = d * 60,
              saved_completedPomodoros = completedPomodoros t,
              saved_consecutivePomodoros = consecutivePomodoros t,
              saved_timestamp = now\<rparr>,
            shown := shown t @ [MsgWorkStarted d]\<rparr>)"
  using assms
  by (cases t) (simp add: startWork_def Let_def stopTimer_def startTimer_def updateStatusBar_def
      saveState_def saveTimerState_def showInformationMessage_def)


lemma work_run:
  assumes "state t \<noteq> WORKING"
    and "0 < workDuration (getConfig (configuration t))"
    and "length nows = nat (workDuration (getConfig (configuration t)) * 60)"
  shows "ticks nows (startWork now t) =
           handleTimerEnd (last nows)
             ((saveState (last (butlast nows)) ((startWork now t)\<lparr>remainingTime := 1\<rparr>))
                \<lparr>remainingTime := 0\<rparr>)"
    and "ticks (butlast nows) (startWork now t) =
           saveState (last (butlast nows)) ((startWork now t)\<lparr>remainingTime := 1\<rparr>)"
proof -
  let ?d = "workDuration (getConfig (configuration t))"
  let ?t1 = "startWork now t"
  have t1: "intervalId ?t1" "remainingTime ?t1 = ?d * 60"
    using assms(1) by (simp_all add: startWork_starts Let_def)
  have len: "int (length nows) = ?d * 60"
    using assms(2,3) by simp
  then have ne: "nows \<noteq> []"
    using assms(2) by auto
  then have split: "nows = butlast nows @ [last nows]"
    by simp
  have lb: "int (length (butlast nows)) = ?d * 60 - 1"
    using len ne by (simp add: of_nat_diff Suc_leI)
  have bne: "butlast nows \<noteq> []"
  proof
    assume "butlast nows = []"
    then have "int (length (butlast nows)) = 0" by simp
    with lb assms(2) show False by linarith
  qed
  have "ticks (butlast nows) ?t1 =
      saveState (last (butlast nows))
        (?t1\<lparr>remainingTime := remainingTime ?t1 - int (length (butlast nows))\<rparr>)"
    using t1 lb bne by (intro ticks_counting) simp_all
  then have b: "ticks (butlast nows) ?t1 =
      saveState (last (butlast nows)) (?t1\<lparr>remainingTime := 1\<rparr>)"
    unfolding t1(2) lb by simp
  have "ticks nows ?t1 = tick (last nows) (ticks (butlast nows) ?t1)"
    by (subst split) (simp add: ticks_append del: append_butlast_last_id)
  also have "\<dots> = handleTimerEnd (last nows)
      ((saveState (last (butlast nows)) (?t1\<lparr>remainingTime := 1\<rparr>))\<lparr>remainingTime := 0\<rparr>)"
    unfolding b using t1(1)
    by (subst tick_last_second) (simp_all add: saveState_def saveTimerState_def)
  finally show "ticks nows ?t1 = handleTimerEnd (last nows)
      ((saveState (last (butlast nows)) (?t1\<lparr>remainingTime := 1\<rparr>))\<lparr>remainingTime := 0\<rparr>)" .
  show "ticks (butlast nows) ?t1 =
      saveState (last (butlast nows)) (?t1\<lparr>remainingTime := 1\<rparr>)"
    by (rule b)
qed

lemma writtenNonIdle_same: "timerState t' = timerState t \<Longrightarrow> writtenNonIdle t t'"
  by (simp add: writtenNonIdle_def split: option.splits)

lemma writtenNonIdle_trans:
  "writtenNonIdle a b \<Longrightarrow> writtenNonIdle b c \<Longrightarrow> writtenNonIdle a c"
  by (auto simp add: writtenNonIdle_def split: option.splits)

lemma writtenNonIdle_saveState: "writtenNonIdle t (saveState now t)"
  by (simp add: writtenNonIdle_def saveState_def saveTimerState_def split: option.splits)

lemma writtenNonIdle_saveState': "timerState t' = timerState t \<Longrightarrow> writtenNonIdle t (saveState now t')"
  by (simp add: writtenNonIdle_def saveState_def saveTimerState_def split: option.splits)

lemma writtenNonIdle_handleTimerEnd: "writtenNonIdle t (handleTimerEnd now t)"
proof (cases "state t")
  case WORKING
  then show ?thesis
    by (simp add: handleTimerEnd_working Let_def writtenNonIdle_def)
next
  case SHORT_BREAK
  then show ?thesis
    by (simp add: handleTimerEnd_break writtenNonIdle_same)
next
  case LONG_BREAK
  then show ?thesis
    by (simp add: handleTimerEnd_break writtenNonIdle_same)
next
  case IDLE
  then show ?thesis
    by (simp add: handleTimerEnd_other writtenNonIdle_saveState')
next
  case PAUSED
  then show ?thesis
    by (simp add: handleTimerEnd_other writtenNonIdle_saveState')
qed

lemma writtenNonIdle_handleTimerEnd':
  "timerState t' = timerState t \<Longrightarrow> writtenNonIdle t (handleTimerEnd now t')"
  using writtenNonIdle_handleTimerEnd [of t' now]
  by (simp add: writtenNonIdle_def split: option.splits)

lemma cancel_eq:
  assumes "state t \<noteq> IDLE"
  shows "cancel now t =
     t\<lparr>state := IDLE, remainingTime := 0, totalDuration := 0, intervalId := False,
       consecutivePomodoros := (if state t = WORKING then 0 else consecutivePomodoros t),
       startTime := None, pauseTime := None, previousState := IDLE,
       shown := shown t @ [MsgCancelled]\<rparr>"
  using assms
  by (cases t) (simp add: cancel_def Let_def stopTimer_def resetTimer_def updateStatusBar_def
      saveState_def showInformationMessage_def)

lemma cancel_idle:
  assumes "state t = IDLE"
  shows "cancel now t = t\<lparr>shown := shown t @ [MsgAlreadyIdle]\<rparr>"
  using assms by (simp add: cancel_def showInformationMessage_def)

lemma timerState_cancel: "timerState (cancel now t) = timerState t"
  by (cases "state t = IDLE") (simp_all add: cancel_eq cancel_idle)

lemma writtenNonIdle_step: "writtenNonIdle t (step now a t)"
proof (cases a)
  case StartWork
  show ?thesis
  proof (cases "state t = WORKING")
    case True
    then show ?thesis
      using StartWork
      by (simp add: startWork_def showInformationMessage_def writtenNonIdle_same)
  next
    case False
    then show ?thesis
      using StartWork by (simp add: startWork_starts Let_def writtenNonIdle_def)
  qed
next
  case Pause
  then show ?thesis
    by (auto simp add: pause_def Let_def writtenNonIdle_def showInformationMessage_def
        stopTimer_def updateStatusBar_def saveState_def saveTimerState_def split: option.splits)
next
  case Resume
  then show ?thesis
    by (auto simp add: resume_def Let_def writtenNonIdle_def showInformationMessage_def
        startTimer_def stopTimer_def updateStatusBar_def saveState_def saveTimerState_def
        split: option.splits)
next
  case Cancel
  then show ?thesis
    by (simp add: timerState_cancel writtenNonIdle_same)
next
  case Tick
  then show ?thesis
    by (simp add: tick_def Let_def writtenNonIdle_same writtenNonIdle_handleTimerEnd'
        writtenNonIdle_saveState' updateStatusBar_def)
next
  case RestoreState
  show ?thesis
  proof (cases "timerState t")
    case None
    then show ?thesis
      using RestoreState by (simp add: restoreState_def getTimerState_def writtenNonIdle_same)
  next
    case (Some s)
    then show ?thesis
      using RestoreState
      by (simp add: restoreState_def getTimerState_def Let_def updateStatusBar_def
          writtenNonIdle_saveState' startTimer_def stopTimer_def saveState_handleTimerEnd
          writtenNonIdle_handleTimerEnd')
  qed
next
  case Dispose
  then show ?thesis
    by (simp add: dispose_def stopTimer_def writtenNonIdle_saveState')
qed

lemma snapshotNonIdle_step: "snapshotNonIdle t \<Longrightarrow> snapshotNonIdle (step now a t)"
  using writtenNonIdle_step [of t now a]
  by (auto simp add: snapshotNonIdle_def writtenNonIdle_def split: option.splits)

lemma snapshotNonIdle_run: "snapshotNonIdle t \<Longrightarrow> snapshotNonIdle (run es t)"
  by (induction es arbitrary: t) (simp_all add: snapshotNonIdle_step)


lemma activate_eq: "activate now t = restoreState now (newTimer t)"
  by (simp add: activate_def updateStatusBar_def saveState_def newTimer_def)

lemma tick_break_ends:
  assumes "state t = SHORT_BREAK \<or> state t = LONG_BREAK"
    and "intervalId t" and "remainingTime t \<le> 1"
  shows "tick now t =
     t\<lparr>state := IDLE, remainingTime := 0, totalDuration := 0, intervalId := False,
       consecutivePomodoros := (if state t = LONG_BREAK then 0 else consecutivePomodoros t),
       startTime := None, pauseTime := None, previousState := IDLE,
       shown := shown t @ notificationMessages MsgBreakEnd (getConfig (configuration t))
         @ [MsgBreakOver]\<rparr>"
proof -
  have "state (t\<lparr>remainingTime := remainingTime t - 1\<rparr>) = SHORT_BREAK
      \<or> state (t\<lparr>remainingTime := remainingTime t - 1\<rparr>) = LONG_BREAK"
    using assms(1) by simp
  then show ?thesis
    using assms(2,3) by (cases t) (simp add: tick_last_second handleTimerEnd_break)
qed

lemma getConfig_noConfiguration:
  "getConfig noConfiguration =
      \<lparr>workDuration = 25, shortBreakDuration = 5, longBreakDuration = 15,
       longBreakInterval = 4, enableSound = True, enableNotification = True\<rparr>"
  by (simp add: noConfiguration_def getConfig_def orDefault_def)

lemma tick_work_ends:
  assumes "state t = WORKING" and "intervalId t" and "remainingTime t \<le> 1"
  shows "tick now t = handleTimerEnd now (t\<lparr>remainingTime := remainingTime t - 1\<rparr>)"
    and "consecutivePomodoros (tick now t) = consecutivePomodoros t + 1"
    and "state (tick now t) =
           (if longBreakInterval (getConfig (configuration t)) \<le> consecutivePomodoros t + 1
            then LONG_BREAK else SHORT_BREAK)"
proof -
  let ?t1 = "t\<lparr>remainingTime := remainingTime t - 1\<rparr>"
  show e: "tick now t = handleTimerEnd now ?t1"
    using assms(2,3) by (rule tick_last_second)
  have w: "state ?t1 = WORKING"
    using assms(1) by simp
  show "consecutivePomodoros (tick now t) = consecutivePomodoros t + 1"
    unfolding e handleTimerEnd_working [OF w] by (simp add: Let_def)
  show "state (tick now t) =
           (if longBreakInterval (getConfig (configuration t)) \<le> consecutivePomodoros t + 1
            then LONG_BREAK else SHORT_BREAK)"
    unfolding e handleTimerEnd_working [OF w] by (simp add: Let_def)
qed

lemma consecutive_saveState: "consecutivePomodoros (saveState now t) = consecutivePomodoros t"
  by (simp add: saveState_def saveTimerState_def)

lemma consecutive_tick_other:
  assumes "\<not> intervalId t \<or> 1 < remainingTime t \<or> state t = SHORT_BREAK \<or> state t = IDLE
      \<or> state t = PAUSED"
  shows "consecutivePomodoros (tick now t) = consecutivePomodoros t"
proof (cases "intervalId t \<and> remainingTime t \<le> 1")
  case False
  then show ?thesis
    by (auto simp add: tick_def Let_def updateStatusBar_def consecutive_saveState)
next
  case True
  then have e: "tick now t = handleTimerEnd now (t\<lparr>remainingTime := remainingTime t - 1\<rparr>)"
    by (simp add: tick_last_second)
  from True assms
  consider "state t = SHORT_BREAK" | "state t = IDLE \<or> state t = PAUSED"
    by auto
  then show ?thesis
  proof cases
    case 1
    then show ?thesis
      unfolding e by (subst handleTimerEnd_break) simp_all
  next
    case 2
    then show ?thesis
      unfolding e by (subst handleTimerEnd_other) (simp_all add: consecutive_saveState)
  qed
qed

lemma startWork_working:
  assumes "state t = WORKING"
  shows "startWork now t = t\<lparr>shown := shown t @ [MsgAlreadyWorking]\<rparr>"
  using assms by (simp add: startWork_def showInformationMessage_def)

lemma resume_lost:
  assumes "state t = PAUSED" and "pauseTime t = None"
  shows "resume now t = t\<lparr>shown := shown t @ [MsgPauseTimeLost]\<rparr>"
  using assms by (simp add: resume_def showInformationMessage_def)

lemma resumes_lost:
  assumes "state t = PAUSED" and "pauseTime t = None"
  shows "state (run (resumeAt nows) t) = PAUSED"
  using assms
  by (induction nows arbitrary: t) (simp_all add: resumeAt_def resume_lost)

lemma orDefault_zero: "orDefault (Some 0) d = d"
  by (simp add: orDefault_def)

lemma orDefault_nonzero: "d \<noteq> 0 \<Longrightarrow> orDefault v d \<noteq> 0"
  by (simp add: orDefault_def split: option.splits)

declare showNat.simps [simp del]
declare last7Loop.simps [simp del]

lemma foldl_duration:
  "foldl (\<lambda>total r. total + r_duration r) a rs = a + sum_list (map r_duration rs)"
  by (induction rs arbitrary: a) simp_all

lemma dayData_aggregate:
  "dayData localMidnight localeDate records i =
     dayAggregate (localMidnight i) (localeDate i) records"
proof -
  have "inDay (localMidnight i) =
      (\<lambda>r. r_completed r \<and> localMidnight i \<le> toNumber (r_startTime r)
          \<and> toNumber (r_startTime r) < localMidnight i + 24 * 60 * 60 * 1000)"
    by (auto simp add: inDay_def Let_def fun_eq_iff)
  then show ?thesis
    by (simp add: dayData_def dayAggregate_def Let_def foldl_duration)
qed

lemma last7Loop_six:
  "last7Loop m l rs 6 [] = map (dayData m l rs) [6, 5, 4, 3, 2, 1, 0]"
  by (simp add: last7Loop.simps)

lemma dayAggregate_none:
  assumes "\<forall>r \<in> set records. \<not> (r_completed r \<and> dayStart \<le> toNumber (r_startTime r)
      \<and> toNumber (r_startTime r) < dayStart + 24 * 60 * 60 * 1000)"
  shows "dayAggregate dayStart label records = \<lparr>date = label, completed = 0, workTime = 0\<rparr>"
proof -
  have "filter (\<lambda>r. r_completed r \<and> dayStart \<le> toNumber (r_startTime r)
      \<and> toNumber (r_startTime r) < dayStart + 24 * 60 * 60 * 1000) records = []"
    using assms by (simp add: filter_empty_conv)
  then show ?thesis
    by (simp add: dayAggregate_def)
qed

lemma exportToCSV_concat:
  "exportToCSV f t = csvHeader @ concat (map (csvRow f) (getPomodoroRecords t))"
proof -
  have "foldl (\<lambda>csv r. csv @ csvRow f r) a rs = a @ concat (map (csvRow f) rs)" for a rs
    by (induction rs arbitrary: a) simp_all
  then show ?thesis
    by (simp add: exportToCSV_def)
qed

lemma splitOn_line:
  assumes "sep \<notin> set line"
  shows "splitOn sep (line @ sep # rest) = line # splitOn sep rest"
  using assms by (induction line) auto

lemma digit_no_lf: "k < 10 \<Longrightarrow> ''0123456789'' ! k \<noteq> CHR 0x0A"
proof -
  assume "k < 10"
  then have "''0123456789'' ! k \<in> set ''0123456789''"
    by (intro nth_mem) simp
  then show ?thesis
    by auto
qed

lemma showNat_no_lf: "CHR 0x0A \<notin> set (showNat n)"
proof (induction n rule: showNat.induct)
  case (1 n)
  show ?case
  proof (cases "n < 10")
    case True
    then show ?thesis
      using digit_no_lf [of n] by (subst showNat.simps) auto
  next
    case False
    then have "CHR 0x0A \<notin> set (showNat (n div 10))"
      by (rule "1.IH")
    moreover have "''0123456789'' ! (n mod 10) \<noteq> CHR 0x0A"
      by (rule digit_no_lf) simp
    ultimately show ?thesis
      using False by (subst showNat.simps) auto
  qed
qed

lemma showInt_no_lf: "CHR 0x0A \<notin> set (showInt i)"
  by (simp add: showInt_def showNat_no_lf)

lemma csvRow_line:
  assumes "\<forall>ms. CHR 0x0A \<notin> set (f ms)"
  shows "csvRow f r = butlast (csvRow f r) @ [CHR 0x0A]"
    and "CHR 0x0A \<notin> set (butlast (csvRow f r))"
    and "butlast (csvRow f r) \<noteq> []"
proof -
  let ?body = "f (toNumber (r_startTime r)) @ '','' @ f (r_endTime r) @ '','' @ showInt (r_duration r)
      @ '','' @ (if r_completed r then ''completed'' else ''cancelled'')"
  have e: "csvRow f r = ?body @ [CHR 0x0A]"
    by (simp add: csvRow_def Let_def)
  have b: "butlast (csvRow f r) = ?body"
    unfolding e by (rule butlast_snoc)
  show "csvRow f r = butlast (csvRow f r) @ [CHR 0x0A]"
    unfolding b by (rule e)
  show "CHR 0x0A \<notin> set (butlast (csvRow f r))"
    unfolding b using assms by (simp add: showInt_no_lf)
  show "butlast (csvRow f r) \<noteq> []"
    unfolding b by simp
qed

lemma splitOn_rows:
  assumes "\<forall>ms. CHR 0x0A \<notin> set (f ms)"
  shows "splitOn (CHR 0x0A) (concat (map (csvRow f) rs)) =
           map (\<lambda>r. butlast (csvRow f r)) rs @ [[]]"
proof (induction rs)
  case Nil
  show ?case by simp
next
  case (Cons r rs)
  have c: "concat (map (csvRow f) (r # rs)) =
      butlast (csvRow f r) @ CHR 0x0A # concat (map (csvRow f) rs)"
    using csvRow_line(1) [OF assms, of r]
    by (metis append.assoc append_Cons append_Nil concat.simps(2) list.simps(9))
  have "splitOn (CHR 0x0A) (concat (map (csvRow f) (r # rs))) =
      splitOn (CHR 0x0A) (butlast (csvRow f r) @ CHR 0x0A # concat (map (csvRow f) rs))"
    by (simp only: c)
  also have "\<dots> = butlast (csvRow f r) # splitOn (CHR 0x0A) (concat (map (csvRow f) rs))"
    using csvRow_line(2) [OF assms, of r] by (rule splitOn_line)
  also have "\<dots> = butlast (csvRow f r) # (map (\<lambda>r. butlast (csvRow f r)) rs @ [[]])"
    by (simp only: Cons.IH)
  also have "\<dots> = map (\<lambda>r. butlast (csvRow f r)) (r # rs) @ [[]]"
    by simp
  finally show ?case .
qed

lemma ticksFrom_length: "length (ticksFrom start n) = n"
  by (simp add: ticksFrom_def del: upt_Suc)

lemma ticksFrom_last: "0 < n \<Longrightarrow> last (ticksFrom start n) = start + 1000 * int n"
  by (simp add: ticksFrom_def last_map del: upt_Suc)

lemma ticksFrom_butlast: "butlast (ticksFrom start n) = ticksFrom start (n - 1)"
  by (cases n) (simp_all add: ticksFrom_def)

lemmas ticksFrom_facts = ticksFrom_length ticksFrom_last ticksFrom_butlast

lemma endingBreak_reached:
  "ticks (ticksFrom 1500000 299) (ticks (ticksFrom 0 1500) (startWork 0 idleTimer)) = endingBreak"
proof -
  have i: "state idleTimer \<noteq> WORKING"
    by (simp add: idleTimer_def)
  have c: "configuration idleTimer = noConfiguration"
    by (simp add: idleTimer_def)
  have d: "0 < workDuration (getConfig (configuration idleTimer))"
    "length (ticksFrom 0 1500) = nat (workDuration (getConfig (configuration idleTimer)) * 60)"
    by (simp_all add: c getConfig_noConfiguration ticksFrom_facts)
  let ?t2 = "(saveState 1499000 ((startWork 0 idleTimer)\<lparr>remainingTime := 1\<rparr>))\<lparr>remainingTime := 0\<rparr>"
  have w: "ticks (ticksFrom 0 1500) (startWork 0 idleTimer) = handleTimerEnd 1500000 ?t2"
    using work_run(1) [OF i d, of 0] by (simp add: ticksFrom_facts)
  have t1: "startWork 0 idleTimer =
      idleTimer\<lparr>state := WORKING, remainingTime := 1500, totalDuration := 1500,
        intervalId := True, startTime := Some 0,
        timerState := Some (workSnapshot\<lparr>saved_timestamp := 0\<rparr>),
        shown := [MsgWorkStarted 25]\<rparr>"
    unfolding startWork_starts [OF i] c
    by (simp add: Let_def getConfig_noConfiguration idleTimer_def workSnapshot_def)
  have t2: "?t2 =
      idleTimer\<lparr>state := WORKING, remainingTime := 0, totalDuration := 1500,
        intervalId := True, startTime := Some 0,
        timerState := Some (workSnapshot\<lparr>saved_remainingTime := 1, saved_timestamp := 1499000\<rparr>),
        shown := [MsgWorkStarted 25]\<rparr>"
    unfolding t1 by (simp add: saveState_def saveTimerState_def idleTimer_def workSnapshot_def)
  have s: "state ?t2 = WORKING"
    unfolding t2 by simp
  let ?t3 = "handleTimerEnd 1500000 ?t2"
  have t3: "?t3 = idleTimer\<lparr>state := SHORT_BREAK, remainingTime := 300, totalDuration := 300,
       intervalId := True, completedPomodoros := 1, consecutivePomodoros := 1,
       startTime := Some 1500000,
       pomodoroRecords := [\<lparr>r_startTime = Some 0, r_endTime = 1500000, r_duration = 25,
         r_completed = True\<rparr>],
       timerState := Some (breakSnapshot\<lparr>saved_remainingTime := 300, saved_timestamp := 1500000\<rparr>),
       shown := [MsgWorkStarted 25, MsgWorkEnd, MsgBell, MsgShortBreakStarted 5]\<rparr>"
    unfolding handleTimerEnd_working [OF s]
    unfolding t2
    by (simp add: Let_def getConfig_noConfiguration idleTimer_def notificationMessages_def
        breakSnapshot_def)
  have r: "intervalId ?t3" "int (length (ticksFrom 1500000 299)) < remainingTime ?t3"
    "ticksFrom 1500000 299 \<noteq> []"
    unfolding t3 by (simp_all add: ticksFrom_facts) (simp add: ticksFrom_def)
  show ?thesis
    unfolding w ticks_counting [OF r]
    unfolding t3
    by (simp add: ticksFrom_facts saveState_def saveTimerState_def endingBreak_def
        breakSnapshot_def idleTimer_def)
qed

section \<open>Restoring a running snapshot\<close>

text \<open>
  C1: for a stored snapshot whose state is Working, ShortBreak or LongBreak,
  \<^verbatim>\<open>restoreState()\<close> computes the remaining time
  \<open>max 0 (stored remaining - floor ((now - stored timestamp) / 1000))\<close>. If it is
  positive the countdown resumes with it in the stored state, with the stored counters,
  and no record is appended and no message shown. If it is not positive, one completion
  step is applied to the stored state: \<^verbatim>\<open>handleTimerEnd\<close>, which is also what the
  countdown's callback does when it takes the last second away. A break then ends in
  Idle with the break-end notification and no record; a work interval is recorded once,
  both counters grow by one, and its break starts with its full duration.
\<close>

theorem restoreState_running:
  assumes "timerState t = Some s"
    and "saved_state s = WORKING \<or> saved_state s = SHORT_BREAK \<or> saved_state s = LONG_BREAK"
  shows "(0 < remainingAfter now s \<longrightarrow>
            state (restoreState now t) = saved_state s
          \<and> remainingTime (restoreState now t) = remainingAfter now s
          \<and> totalDuration (restoreState now t) = saved_totalDuration s
          \<and> intervalId (restoreState now t)
          \<and> completedPomodoros (restoreState now t) = saved_completedPomodoros s
          \<and> consecutivePomodoros (restoreState now t) = saved_consecutivePomodoros s
          \<and> pomodoroRecords (restoreState now t) = pomodoroRecords t
          \<and> shown (restoreState now t) = shown t)
       \<and> (remainingAfter now s \<le> 0 \<longrightarrow>
            restoreState now t = handleTimerEnd now (loaded s 0 t)
          \<and> restoreState now t = tick now ((loaded s 1 t)\<lparr>intervalId := True\<rparr>))
       \<and> (remainingAfter now s \<le> 0 \<and> saved_state s \<noteq> WORKING \<longrightarrow>
            state (restoreState now t) = IDLE
          \<and> remainingTime (restoreState now t) = 0
          \<and> \<not> intervalId (restoreState now t)
          \<and> completedPomodoros (restoreState now t) = saved_completedPomodoros s
          \<and> pomodoroRecords (restoreState now t) = pomodoroRecords t
          \<and> shown (restoreState now t) =
              shown t @ notificationMessages MsgBreakEnd (getConfig (configuration t))
                @ [MsgBreakOver])
       \<and> (remainingAfter now s \<le> 0 \<and> saved_state s = WORKING \<longrightarrow>
            (state (restoreState now t) = SHORT_BREAK \<or> state (restoreState now t) = LONG_BREAK)
          \<and> remainingTime (restoreState now t) = totalDuration (restoreState now t)
          \<and> intervalId (restoreState now t)
          \<and> completedPomodoros (restoreState now t) = saved_completedPomodoros s + 1
          \<and> consecutivePomodoros (restoreState now t) = saved_consecutivePomodoros s + 1
          \<and> pomodoroRecords (restoreState now t) =
              pomodoroRecords t @
                [\<lparr>r_startTime = startTime t, r_endTime = now,
                  r_duration = workDuration (getConfig (configuration t)),
                  r_completed = True\<rparr>])"
proof (intro conjI impI)
  assume pos: "0 < remainingAfter now s"
  note eq = restoreState_resumes [OF assms pos]
  show "state (restoreState now t) = saved_state s"
    using assms(2) by (auto simp add: eq loaded_def saveState_def saveTimerState_def)
  show "remainingTime (restoreState now t) = remainingAfter now s"
    by (simp add: eq loaded_def saveState_def saveTimerState_def)
  show "totalDuration (restoreState now t) = saved_totalDuration s"
    by (simp add: eq loaded_def saveState_def saveTimerState_def)
  show "intervalId (restoreState now t)"
    by (simp add: eq loaded_def saveState_def saveTimerState_def)
  show "completedPomodoros (restoreState now t) = saved_completedPomodoros s"
    by (simp add: eq loaded_def saveState_def saveTimerState_def)
  show "consecutivePomodoros (restoreState now t) = saved_consecutivePomodoros s"
    by (simp add: eq loaded_def saveState_def saveTimerState_def)
  show "pomodoroRecords (restoreState now t) = pomodoroRecords t"
    by (simp add: eq loaded_def saveState_def saveTimerState_def)
  show "shown (restoreState now t) = shown t"
    by (simp add: eq loaded_def saveState_def saveTimerState_def)
next
  assume z: "remainingAfter now s \<le> 0"
  show "restoreState now t = handleTimerEnd now (loaded s 0 t)"
    by (rule restoreState_completes [OF assms z])
  have "tick now ((loaded s 1 t)\<lparr>intervalId := True\<rparr>) =
          handleTimerEnd now ((loaded s 0 t)\<lparr>intervalId := True\<rparr>)"
    by (cases t) (simp add: tick_last_second loaded_def)
  then show "restoreState now t = tick now ((loaded s 1 t)\<lparr>intervalId := True\<rparr>)"
    by (simp add: restoreState_completes [OF assms z] handleTimerEnd_intervalId)
next
  assume "remainingAfter now s \<le> 0 \<and> saved_state s \<noteq> WORKING"
  then have z: "remainingAfter now s \<le> 0" and b: "saved_state s = SHORT_BREAK \<or> saved_state s = LONG_BREAK"
    using assms(2) by auto
  have b': "state (loaded s 0 t) = SHORT_BREAK \<or> state (loaded s 0 t) = LONG_BREAK"
    using b by (simp add: loaded_def)
  note eq = restoreState_completes [OF assms z] handleTimerEnd_break [OF b']
  show "state (restoreState now t) = IDLE" by (simp add: eq)
  show "remainingTime (restoreState now t) = 0" by (simp add: eq)
  show "\<not> intervalId (restoreState now t)" by (simp add: eq)
  show "completedPomodoros (restoreState now t) = saved_completedPomodoros s"
    unfolding eq by (simp add: loaded_def)
  show "pomodoroRecords (restoreState now t) = pomodoroRecords t"
    unfolding eq by (simp add: loaded_def)
  show "shown (restoreState now t) =
      shown t @ notificationMessages MsgBreakEnd (getConfig (configuration t)) @ [MsgBreakOver]"
    unfolding eq by (simp add: loaded_def)
next
  assume "remainingAfter now s \<le> 0 \<and> saved_state s = WORKING"
  then have z: "remainingAfter now s \<le> 0" and w: "state (loaded s 0 t) = WORKING"
    by (simp_all add: loaded_def)
  note eq = restoreState_completes [OF assms z] handleTimerEnd_working [OF w]
  show "state (restoreState now t) = SHORT_BREAK \<or> state (restoreState now t) = LONG_BREAK"
    by (simp add: eq Let_def)
  show "remainingTime (restoreState now t) = totalDuration (restoreState now t)"
    by (simp add: eq Let_def)
  show "intervalId (restoreState now t)" by (simp add: eq Let_def)
  show "completedPomodoros (restoreState now t) = saved_completedPomodoros s + 1"
    unfolding eq by (simp add: Let_def loaded_def)
  show "consecutivePomodoros (restoreState now t) = saved_consecutivePomodoros s + 1"
    unfolding eq by (simp add: Let_def loaded_def)
  show "pomodoroRecords (restoreState now t) =
      pomodoroRecords t @
        [\<lparr>r_startTime = startTime t, r_endTime = now,
          r_duration = workDuration (getConfig (configuration t)), r_completed = True\<rparr>]"
    unfolding eq by (simp add: Let_def loaded_def)
qed


theorem restoreState_running_witness:
  "timerState staleTimer = Some workSnapshot
   \<and> saved_state workSnapshot = WORKING
   \<and> 0 < remainingAfter 700000 workSnapshot
   \<and> state (restoreState 700000 staleTimer) = WORKING
   \<and> remainingTime (restoreState 700000 staleTimer) = 801
   \<and> pomodoroRecords (restoreState 700000 staleTimer) = []
   \<and> remainingAfter 5000000 workSnapshot \<le> 0
   \<and> completedPomodoros (restoreState 5000000 staleTimer) = 1
   \<and> pomodoroRecords (restoreState 5000000 staleTimer) =
        [\<lparr>r_startTime = None, r_endTime = 5000000, r_duration = 25, r_completed = True\<rparr>]"
proof -
  have h1: "timerState staleTimer = Some workSnapshot"
    by (simp add: staleTimer_def)
  have h2: "saved_state workSnapshot = WORKING \<or> saved_state workSnapshot = SHORT_BREAK
      \<or> saved_state workSnapshot = LONG_BREAK"
    by (simp add: workSnapshot_def)
  have w: "saved_state workSnapshot = WORKING" "saved_completedPomodoros workSnapshot = 0"
    by (simp_all add: workSnapshot_def)
  have p: "0 < remainingAfter 700000 workSnapshot" "remainingAfter 700000 workSnapshot = 801"
    by (simp_all add: remainingAfter_def workSnapshot_def)
  have z: "remainingAfter 5000000 workSnapshot \<le> 0"
    by (simp add: remainingAfter_def workSnapshot_def)
  have c: "workDuration (getConfig (configuration staleTimer)) = 25"
    by (simp add: staleTimer_def idleTimer_def noConfiguration_def getConfig_def orDefault_def)
  have f: "pomodoroRecords staleTimer = []" "startTime staleTimer = None"
    by (simp_all add: staleTimer_def idleTimer_def)
  have a: "state (restoreState 700000 staleTimer) = saved_state workSnapshot
      \<and> remainingTime (restoreState 700000 staleTimer) = remainingAfter 700000 workSnapshot
      \<and> pomodoroRecords (restoreState 700000 staleTimer) = pomodoroRecords staleTimer"
    using restoreState_running [OF h1 h2, of 700000] p(1) by blast
  have b: "completedPomodoros (restoreState 5000000 staleTimer) =
        saved_completedPomodoros workSnapshot + 1
      \<and> pomodoroRecords (restoreState 5000000 staleTimer) =
        pomodoroRecords staleTimer @
          [\<lparr>r_startTime = startTime staleTimer, r_endTime = 5000000,
            r_duration = workDuration (getConfig (configuration staleTimer)),
            r_completed = True\<rparr>]"
    using restoreState_running [OF h1 h2, of 5000000] z w(1) by blast
  show ?thesis
    using a b h1 w p z c f by simp
qed

section \<open>Cancelling a work interval\<close>

text \<open>
  C6: \<^verbatim>\<open>cancel()\<close> in state Working appends no record, sets
  \<open>consecutivePomodoros\<close> to 0 and resets the machine: state Idle, remaining time 0,
  total duration 0, start time cleared (and the countdown stopped).
\<close>

theorem cancel_working:
  assumes "state t = WORKING"
  shows "pomodoroRecords (cancel now t) = pomodoroRecords t
       \<and> consecutivePomodoros (cancel now t) = 0
       \<and> state (cancel now t) = IDLE
       \<and> remainingTime (cancel now t) = 0
       \<and> totalDuration (cancel now t) = 0
       \<and> startTime (cancel now t) = None
       \<and> \<not> intervalId (cancel now t)"
  using assms by (simp add: cancel_def timer_defs Let_def)

theorem cancel_working_witness:
  "state (startWork 1000 idleTimer) = WORKING
   \<and> pomodoroRecords (cancel 5000 (startWork 1000 idleTimer)) = []
   \<and> consecutivePomodoros (cancel 5000 (startWork 1000 idleTimer)) = 0
   \<and> state (cancel 5000 (startWork 1000 idleTimer)) = IDLE
   \<and> remainingTime (cancel 5000 (startWork 1000 idleTimer)) = 0
   \<and> totalDuration (cancel 5000 (startWork 1000 idleTimer)) = 0
   \<and> startTime (cancel 5000 (startWork 1000 idleTimer)) = None"
proof -
  have w: "state (startWork 1000 idleTimer) = WORKING"
    by (simp add: startWork_def idleTimer_def timer_defs Let_def)
  have r: "pomodoroRecords (startWork 1000 idleTimer) = []"
    by (simp add: startWork_def idleTimer_def timer_defs Let_def)
  show ?thesis
    using cancel_working [OF w, of 5000] w r by simp
qed

section \<open>Completing a work interval\<close>

text \<open>
  C2: a work interval of configured duration \<open>d > 0\<close> minutes is started from Idle and
  the countdown's callback runs \<open>d * 60\<close> times, the configuration unchanged. Then
  \<open>completedPomodoros\<close> and \<open>consecutivePomodoros\<close> have each grown by one, exactly one
  record has been appended, with \<open>completed = true\<close>, duration \<open>d\<close>, the start time of
  \<^verbatim>\<open>startWork\<close> and the time of the last callback as its end, the work-end
  notification has been shown (its text if notifications are enabled, the bell if sound
  is), and the machine is in LongBreak if the new \<open>consecutivePomodoros\<close> is at least
  \<open>longBreakInterval\<close> and in ShortBreak otherwise, with that break's countdown
  running from its full duration. Before the last callback the state is still Working
  and no record has been appended.
\<close>

theorem work_interval_completes:
  assumes "state t = IDLE"
    and "workDuration (getConfig (configuration t)) = d"
    and "0 < d"
    and "length nows = nat (d * 60)"
  shows "completedPomodoros (ticks nows (startWork now t)) = completedPomodoros t + 1
       \<and> consecutivePomodoros (ticks nows (startWork now t)) = consecutivePomodoros t + 1
       \<and> pomodoroRecords (ticks nows (startWork now t)) =
            pomodoroRecords t @
              [\<lparr>r_startTime = Some now, r_endTime = last nows, r_duration = d,
                r_completed = True\<rparr>]
       \<and> shown (ticks nows (startWork now t)) =
            shown t @ [MsgWorkStarted d]
              @ notificationMessages MsgWorkEnd (getConfig (configuration t))
              @ [if consecutivePomodoros t + 1 \<ge> longBreakInterval (getConfig (configuration t))
                 then MsgLongBreakStarted (longBreakDuration (getConfig (configuration t)))
                 else MsgShortBreakStarted (shortBreakDuration (getConfig (configuration t)))]
       \<and> state (ticks nows (startWork now t)) =
            (if consecutivePomodoros t + 1 \<ge> longBreakInterval (getConfig (configuration t))
             then LONG_BREAK else SHORT_BREAK)
       \<and> remainingTime (ticks nows (startWork now t)) =
            (if consecutivePomodoros t + 1 \<ge> longBreakInterval (getConfig (configuration t))
             then longBreakDuration (getConfig (configuration t))
             else shortBreakDuration (getConfig (configuration t))) * 60
       \<and> totalDuration (ticks nows (startWork now t)) =
            remainingTime (ticks nows (startWork now t))
       \<and> intervalId (ticks nows (startWork now t))
       \<and> state (ticks (butlast nows) (startWork now t)) = WORKING
       \<and> pomodoroRecords (ticks (butlast nows) (startWork now t)) = pomodoroRecords t"
proof -
  have nw: "state t \<noteq> WORKING"
    using assms(1) by simp
  let ?t2 = "(saveState (last (butlast nows)) ((startWork now t)\<lparr>remainingTime := 1\<rparr>))
                \<lparr>remainingTime := 0\<rparr>"
  have run: "ticks nows (startWork now t) = handleTimerEnd (last nows) ?t2"
    using nw assms(2,3,4) by (intro work_run) simp_all
  have before: "ticks (butlast nows) (startWork now t) =
      saveState (last (butlast nows)) ((startWork now t)\<lparr>remainingTime := 1\<rparr>)"
    using nw assms(2,3,4) by (intro work_run) simp_all
  have w: "state ?t2 = WORKING"
    using nw by (simp add: startWork_starts Let_def saveState_def saveTimerState_def)
  have f: "completedPomodoros ?t2 = completedPomodoros t"
    "consecutivePomodoros ?t2 = consecutivePomodoros t"
    "pomodoroRecords ?t2 = pomodoroRecords t"
    "startTime ?t2 = Some now"
    "configuration ?t2 = configuration t"
    "shown ?t2 = shown t @ [MsgWorkStarted d]"
    using nw assms(2)
    by (simp_all add: startWork_starts Let_def saveState_def saveTimerState_def)
  show ?thesis
    unfolding run before handleTimerEnd_working [OF w]
    using nw assms(2)
    by (simp add: Let_def f startWork_starts saveState_def saveTimerState_def)
qed

theorem work_interval_completes_witness:
  "state oneMinuteTimer = IDLE
   \<and> workDuration (getConfig (configuration oneMinuteTimer)) = 1
   \<and> length (ticksFrom 0 60) = nat (1 * 60)
   \<and> completedPomodoros (ticks (ticksFrom 0 60) (startWork 0 oneMinuteTimer)) = 1
   \<and> consecutivePomodoros (ticks (ticksFrom 0 60) (startWork 0 oneMinuteTimer)) = 1
   \<and> pomodoroRecords (ticks (ticksFrom 0 60) (startWork 0 oneMinuteTimer)) =
        [\<lparr>r_startTime = Some 0, r_endTime = last (ticksFrom 0 60), r_duration = 1,
          r_completed = True\<rparr>]
   \<and> state (ticks (ticksFrom 0 60) (startWork 0 oneMinuteTimer)) = SHORT_BREAK
   \<and> remainingTime (ticks (ticksFrom 0 60) (startWork 0 oneMinuteTimer)) = 300"
proof -
  have i: "state oneMinuteTimer = IDLE"
    by (simp add: oneMinuteTimer_def idleTimer_def)
  have c: "getConfig (configuration oneMinuteTimer) =
      \<lparr>workDuration = 1, shortBreakDuration = 5, longBreakDuration = 15,
       longBreakInterval = 4, enableSound = True, enableNotification = True\<rparr>"
    by (simp add: oneMinuteTimer_def idleTimer_def noConfiguration_def getConfig_def
        orDefault_def)
  have d: "workDuration (getConfig (configuration oneMinuteTimer)) = 1"
    by (simp add: c)
  have l: "length (ticksFrom 0 60) = nat (1 * 60)"
    by (simp add: ticksFrom_length)
  have f: "completedPomodoros oneMinuteTimer = 0" "consecutivePomodoros oneMinuteTimer = 0"
    "pomodoroRecords oneMinuteTimer = []"
    by (simp_all add: oneMinuteTimer_def idleTimer_def)
  show ?thesis
    using work_interval_completes [OF i d _ l, of 0] i l f
    by (simp add: c)
qed

section \<open>The snapshot after a return to Idle\<close>

text \<open>
  C3, as amended: no step ever stores a snapshot in state Idle (\<^verbatim>\<open>saveState\<close> writes
  only while the state is not Idle), so \<^verbatim>\<open>cancel()\<close> and a break's countdown reaching
  0 put the machine into Idle and leave the stored snapshot \<open>s\<close> as it was. A later
  start of the extension restores from it as from a live snapshot. If \<open>s\<close> is Paused the
  machine is Paused again. If \<open>s\<close> is Working, ShortBreak or LongBreak and more seconds
  remain in it than have passed since it was written, the machine is in the state of
  \<open>s\<close> again with the countdown running. Otherwise one completion step is applied to the
  state of \<open>s\<close>, and the machine does not stay in that state.
\<close>

theorem stale_snapshot:
  assumes "timerState t = Some s"
    and "t' = cancel now t
       \<or> (t' = tick now t \<and> (state t = SHORT_BREAK \<or> state t = LONG_BREAK)
            \<and> intervalId t \<and> remainingTime t \<le> 1)"
  shows "writtenNonIdle u (step now a u)
       \<and> (snapshotNonIdle u \<longrightarrow> snapshotNonIdle (run es u))
       \<and> state t' = IDLE
       \<and> timerState t' = Some s
       \<and> (saved_state s = PAUSED \<longrightarrow>
            state (activate later t') = PAUSED \<and> \<not> intervalId (activate later t'))
       \<and> ((saved_state s = WORKING \<or> saved_state s = SHORT_BREAK \<or> saved_state s = LONG_BREAK)
            \<and> 0 < remainingAfter later s \<longrightarrow>
            state (activate later t') = saved_state s
          \<and> remainingTime (activate later t') = remainingAfter later s
          \<and> intervalId (activate later t'))
       \<and> ((saved_state s = WORKING \<or> saved_state s = SHORT_BREAK \<or> saved_state s = LONG_BREAK)
            \<and> remainingAfter later s \<le> 0 \<longrightarrow>
            activate later t' = handleTimerEnd later (loaded s 0 (newTimer t')))"
proof -
  have idle: "state t' = IDLE"
    using assms(2)
    by (cases "state t = IDLE") (auto simp add: cancel_eq cancel_idle tick_break_ends)
  have kept: "timerState t' = Some s"
    using assms by (auto simp add: timerState_cancel tick_break_ends)
  have new: "timerState (newTimer t') = Some s"
    using kept by (simp add: newTimer_def)
  have fresh: "\<not> intervalId (newTimer t')"
    by (simp add: newTimer_def)
  have paused: "state (activate later t') = PAUSED \<and> \<not> intervalId (activate later t')"
    if "saved_state s = PAUSED"
    using that fresh
    by (simp add: activate_eq restoreState_paused [OF new that] loaded_def saveState_def
        saveTimerState_def)
  have resumes: "state (activate later t') = saved_state s
      \<and> remainingTime (activate later t') = remainingAfter later s
      \<and> intervalId (activate later t')"
    if "saved_state s = WORKING \<or> saved_state s = SHORT_BREAK \<or> saved_state s = LONG_BREAK"
      and "0 < remainingAfter later s"
    using that(1)
    by (auto simp add: activate_eq restoreState_resumes [OF new that] loaded_def saveState_def
        saveTimerState_def)
  have completes: "activate later t' = handleTimerEnd later (loaded s 0 (newTimer t'))"
    if "saved_state s = WORKING \<or> saved_state s = SHORT_BREAK \<or> saved_state s = LONG_BREAK"
      and "remainingAfter later s \<le> 0"
    by (simp add: activate_eq restoreState_completes [OF new that])
  show ?thesis
    using idle kept paused resumes completes
    by (simp add: writtenNonIdle_step snapshotNonIdle_run)
qed

theorem stale_snapshot_witness:
  "timerState (startWork 1000 idleTimer) = Some workSnapshot
   \<and> state (cancel 5000 (startWork 1000 idleTimer)) = IDLE
   \<and> timerState (cancel 5000 (startWork 1000 idleTimer)) = Some workSnapshot
   \<and> 0 < remainingAfter 700000 workSnapshot
   \<and> state (activate 700000 (cancel 5000 (startWork 1000 idleTimer))) = WORKING
   \<and> remainingTime (activate 700000 (cancel 5000 (startWork 1000 idleTimer))) = 801
   \<and> intervalId (activate 700000 (cancel 5000 (startWork 1000 idleTimer)))"
proof -
  have c: "getConfig noConfiguration =
      \<lparr>workDuration = 25, shortBreakDuration = 5, longBreakDuration = 15,
       longBreakInterval = 4, enableSound = True, enableNotification = True\<rparr>"
    by (simp add: noConfiguration_def getConfig_def orDefault_def)
  have i: "state idleTimer \<noteq> WORKING"
    by (simp add: idleTimer_def)
  have h: "timerState (startWork 1000 idleTimer) = Some workSnapshot"
    unfolding startWork_starts [OF i] by (simp add: idleTimer_def c workSnapshot_def)
  have w: "saved_state workSnapshot = WORKING"
    by (simp add: workSnapshot_def)
  have p: "0 < remainingAfter 700000 workSnapshot" "remainingAfter 700000 workSnapshot = 801"
    by (simp_all add: remainingAfter_def workSnapshot_def)
  have "state (cancel 5000 (startWork 1000 idleTimer)) = IDLE
      \<and> timerState (cancel 5000 (startWork 1000 idleTimer)) = Some workSnapshot
      \<and> state (activate 700000 (cancel 5000 (startWork 1000 idleTimer))) =
          saved_state workSnapshot
      \<and> remainingTime (activate 700000 (cancel 5000 (startWork 1000 idleTimer))) =
          remainingAfter 700000 workSnapshot
      \<and> intervalId (activate 700000 (cancel 5000 (startWork 1000 idleTimer)))"
    using stale_snapshot [where t' = "cancel 5000 (startWork 1000 idleTimer)" and now = 5000
        and later = 700000, OF h] w p(1)
    by blast
  then show ?thesis
    using h w p by simp
qed

text \<open>
  C3 as stated fails where it says that the restored machine is in the stale state
  again. A work interval of 25 minutes is started from Idle at time 0 and completes, and
  299 callbacks later its short break has one second left. The break ends at time
  1800000, the snapshot of time 1799000 stays in the store, and a start of the extension
  at time 1840000 ends in Idle, after showing the break-end notification a second time.
\<close>

theorem stale_break_counterexample:
  "ticks (ticksFrom 1500000 299) (ticks (ticksFrom 0 1500) (startWork 0 idleTimer)) =
     endingBreak
   \<and> state (tick 1800000 endingBreak) = IDLE
   \<and> timerState (tick 1800000 endingBreak) = Some breakSnapshot
   \<and> saved_state breakSnapshot = SHORT_BREAK
   \<and> state (activate 1840000 (tick 1800000 endingBreak)) \<noteq> saved_state breakSnapshot
   \<and> state (activate 1840000 (tick 1800000 endingBreak)) = IDLE
   \<and> shown (activate 1840000 (tick 1800000 endingBreak)) = [MsgBreakEnd, MsgBell, MsgBreakOver]"
proof -
  have c: "getConfig noConfiguration =
      \<lparr>workDuration = 25, shortBreakDuration = 5, longBreakDuration = 15,
       longBreakInterval = 4, enableSound = True, enableNotification = True\<rparr>"
    by (simp add: noConfiguration_def getConfig_def orDefault_def)
  have b: "state endingBreak = SHORT_BREAK \<or> state endingBreak = LONG_BREAK"
    "intervalId endingBreak" "remainingTime endingBreak \<le> 1"
    by (simp_all add: endingBreak_def)
  note tk = tick_break_ends [OF b, of 1800000]
  have n: "timerState (newTimer (tick 1800000 endingBreak)) = Some breakSnapshot"
    unfolding tk by (simp add: newTimer_def endingBreak_def)
  have s: "saved_state breakSnapshot = WORKING \<or> saved_state breakSnapshot = SHORT_BREAK
      \<or> saved_state breakSnapshot = LONG_BREAK"
    by (simp add: breakSnapshot_def)
  have z: "remainingAfter 1840000 breakSnapshot \<le> 0"
    by (simp add: remainingAfter_def breakSnapshot_def)
  have l: "state (loaded breakSnapshot 0 (newTimer (tick 1800000 endingBreak))) = SHORT_BREAK
      \<or> state (loaded breakSnapshot 0 (newTimer (tick 1800000 endingBreak))) = LONG_BREAK"
    by (simp add: loaded_def breakSnapshot_def)
  have a: "activate 1840000 (tick 1800000 endingBreak) =
      handleTimerEnd 1840000 (loaded breakSnapshot 0 (newTimer (tick 1800000 endingBreak)))"
    by (simp add: activate_eq restoreState_completes [OF n s z])
  have cf: "configuration (tick 1800000 endingBreak) = noConfiguration"
    unfolding tk by (simp add: endingBreak_def idleTimer_def)
  have after: "state (activate 1840000 (tick 1800000 endingBreak)) = IDLE"
    "shown (activate 1840000 (tick 1800000 endingBreak)) = [MsgBreakEnd, MsgBell, MsgBreakOver]"
    unfolding a handleTimerEnd_break [OF l]
    by (simp_all add: loaded_def newTimer_def cf c notificationMessages_def)
  have before: "state (tick 1800000 endingBreak) = IDLE"
    "timerState (tick 1800000 endingBreak) = Some breakSnapshot"
    unfolding tk by (simp_all add: endingBreak_def)
  show ?thesis
    using before after endingBreak_reached by (simp add: breakSnapshot_def)
qed

section \<open>When the consecutive count is reset\<close>

text \<open>
  C4, as amended: \<open>consecutivePomodoros\<close> is set to 0 when \<^verbatim>\<open>cancel()\<close> is called in
  state Working and when the countdown of a long break reaches 0. It is not reset when a
  long break starts: the work interval's completion adds one to it and the long break
  begins with that value. A callback that completes nothing, the completion of a short
  break, \<^verbatim>\<open>cancel()\<close> during a break or in Idle, \<^verbatim>\<open>startWork()\<close>,
  \<^verbatim>\<open>pause()\<close>, \<^verbatim>\<open>resume()\<close> and \<^verbatim>\<open>dispose()\<close> leave it as it is.
\<close>

theorem consecutive_reset:
  "(state t = WORKING \<longrightarrow> consecutivePomodoros (cancel now t) = 0)
   \<and> (state t = LONG_BREAK \<and> intervalId t \<and> remainingTime t \<le> 1 \<longrightarrow>
        state (tick now t) = IDLE \<and> consecutivePomodoros (tick now t) = 0)
   \<and> (state t = WORKING \<and> intervalId t \<and> remainingTime t \<le> 1 \<longrightarrow>
        consecutivePomodoros (tick now t) = consecutivePomodoros t + 1
        \<and> state (tick now t) =
            (if longBreakInterval (getConfig (configuration t)) \<le> consecutivePomodoros t + 1
             then LONG_BREAK else SHORT_BREAK))
   \<and> (\<not> intervalId t \<or> 1 < remainingTime t \<or> state t = SHORT_BREAK \<or> state t = IDLE
        \<or> state t = PAUSED \<longrightarrow>
        consecutivePomodoros (tick now t) = consecutivePomodoros t)
   \<and> (state t = SHORT_BREAK \<or> state t = LONG_BREAK \<or> state t = IDLE \<longrightarrow>
        consecutivePomodoros (cancel now t) = consecutivePomodoros t)
   \<and> consecutivePomodoros (startWork now t) = consecutivePomodoros t
   \<and> consecutivePomodoros (pause now t) = consecutivePomodoros t
   \<and> consecutivePomodoros (resume now t) = consecutivePomodoros t
   \<and> consecutivePomodoros (dispose now t) = consecutivePomodoros t"
proof (intro conjI impI)
  show "consecutivePomodoros (cancel now t) = 0" if "state t = WORKING"
    using that by (simp add: cancel_eq)
  show "state (tick now t) = IDLE" if "state t = LONG_BREAK \<and> intervalId t \<and> remainingTime t \<le> 1"
    using that by (simp add: tick_break_ends)
  show "consecutivePomodoros (tick now t) = 0"
    if "state t = LONG_BREAK \<and> intervalId t \<and> remainingTime t \<le> 1"
    using that by (simp add: tick_break_ends)
  show "consecutivePomodoros (tick now t) = consecutivePomodoros t + 1"
    if "state t = WORKING \<and> intervalId t \<and> remainingTime t \<le> 1"
    using that by (simp add: tick_work_ends(2))
  show "state (tick now t) =
      (if longBreakInterval (getConfig (configuration t)) \<le> consecutivePomodoros t + 1
       then LONG_BREAK else SHORT_BREAK)"
    if "state t = WORKING \<and> intervalId t \<and> remainingTime t \<le> 1"
    using that by (simp add: tick_work_ends(3))
  show "consecutivePomodoros (tick now t) = consecutivePomodoros t"
    if "\<not> intervalId t \<or> 1 < remainingTime t \<or> state t = SHORT_BREAK \<or> state t = IDLE
        \<or> state t = PAUSED"
    using that by (rule consecutive_tick_other)
  show "consecutivePomodoros (cancel now t) = consecutivePomodoros t"
    if "state t = SHORT_BREAK \<or> state t = LONG_BREAK \<or> state t = IDLE"
    using that by (cases "state t = IDLE") (auto simp add: cancel_eq cancel_idle)
  show "consecutivePomodoros (startWork now t) = consecutivePomodoros t"
    by (cases "state t = WORKING")
      (simp_all add: startWork_starts Let_def, simp add: startWork_def showInformationMessage_def)
  show "consecutivePomodoros (pause now t) = consecutivePomodoros t"
    by (simp add: pause_def Let_def showInformationMessage_def stopTimer_def updateStatusBar_def
        consecutive_saveState)
  show "consecutivePomodoros (resume now t) = consecutivePomodoros t"
    by (simp add: resume_def Let_def showInformationMessage_def startTimer_def stopTimer_def
        updateStatusBar_def consecutive_saveState)
  show "consecutivePomodoros (dispose now t) = consecutivePomodoros t"
    by (simp add: dispose_def stopTimer_def consecutive_saveState)
qed

theorem consecutive_reset_witness:
  "state fourthPomodoro = WORKING \<and> intervalId fourthPomodoro
   \<and> remainingTime fourthPomodoro \<le> 1
   \<and> consecutivePomodoros (cancel 7499500 fourthPomodoro) = 0
   \<and> consecutivePomodoros (tick 7500000 fourthPomodoro) =
       consecutivePomodoros fourthPomodoro + 1"
proof -
  have w: "state fourthPomodoro = WORKING" "intervalId fourthPomodoro"
    "remainingTime fourthPomodoro \<le> 1"
    by (simp_all add: fourthPomodoro_def)
  have "consecutivePomodoros (cancel 7499500 fourthPomodoro) = 0"
    using consecutive_reset [of fourthPomodoro 7499500] w by blast
  moreover have "consecutivePomodoros (tick 7500000 fourthPomodoro) =
       consecutivePomodoros fourthPomodoro + 1"
    using consecutive_reset [of fourthPomodoro 7500000] w by blast
  ultimately show ?thesis
    using w by simp
qed

text \<open>
  C4 as stated fails for the start of a long break. With a long break configured after
  every work interval of one minute, the first interval from Idle completes after 60
  callbacks, the long break starts, and the count is 1, not 0. Under the default
  configuration the fourth interval completes, the long break starts, and the count is 4.
\<close>

theorem long_break_start_counterexample:
  "state eagerTimer = IDLE
   \<and> consecutivePomodoros eagerTimer = 0
   \<and> longBreakInterval (getConfig (configuration eagerTimer)) = 1
   \<and> state (ticks (ticksFrom 0 60) (startWork 0 eagerTimer)) = LONG_BREAK
   \<and> consecutivePomodoros (ticks (ticksFrom 0 60) (startWork 0 eagerTimer)) = 1
   \<and> state fourthPomodoro = WORKING
   \<and> state (tick 7500000 fourthPomodoro) = LONG_BREAK
   \<and> consecutivePomodoros (tick 7500000 fourthPomodoro) = 4"
proof -
  have w: "state fourthPomodoro = WORKING" "intervalId fourthPomodoro"
    "remainingTime fourthPomodoro \<le> 1"
    by (simp_all add: fourthPomodoro_def)
  have c: "configuration fourthPomodoro = noConfiguration"
    "consecutivePomodoros fourthPomodoro = 3"
    by (simp_all add: fourthPomodoro_def idleTimer_def)
  have i: "state eagerTimer \<noteq> WORKING" "state eagerTimer = IDLE"
    "consecutivePomodoros eagerTimer = 0"
    by (simp_all add: eagerTimer_def idleTimer_def)
  have g: "getConfig (configuration eagerTimer) =
      \<lparr>workDuration = 1, shortBreakDuration = 5, longBreakDuration = 15,
       longBreakInterval = 1, enableSound = True, enableNotification = True\<rparr>"
    by (simp add: eagerTimer_def idleTimer_def noConfiguration_def getConfig_def orDefault_def)
  have d: "0 < workDuration (getConfig (configuration eagerTimer))"
    "length (ticksFrom 0 60) = nat (workDuration (getConfig (configuration eagerTimer)) * 60)"
    by (simp_all add: g ticksFrom_length)
  let ?t2 = "(saveState (last (butlast (ticksFrom 0 60)))
      ((startWork 0 eagerTimer)\<lparr>remainingTime := 1\<rparr>))\<lparr>remainingTime := 0\<rparr>"
  note run = work_run(1) [OF i(1) d, of 0]
  have s: "state ?t2 = WORKING"
    by (simp add: startWork_starts [OF i(1)] Let_def saveState_def saveTimerState_def)
  have f: "consecutivePomodoros ?t2 = consecutivePomodoros eagerTimer"
    "configuration ?t2 = configuration eagerTimer"
    by (simp_all add: startWork_starts [OF i(1)] Let_def saveState_def saveTimerState_def)
  have r: "state (ticks (ticksFrom 0 60) (startWork 0 eagerTimer)) = LONG_BREAK"
    "consecutivePomodoros (ticks (ticksFrom 0 60) (startWork 0 eagerTimer)) = 1"
    unfolding run handleTimerEnd_working [OF s]
    by (simp_all add: Let_def f g i)
  show ?thesis
    using r by (simp add: tick_work_ends(2,3) [OF w] w c i g getConfig_noConfiguration)
qed

section \<open>Starting work in a state other than Idle\<close>

text \<open>
  C5, as amended: in state Working \<^verbatim>\<open>startWork()\<close> changes nothing of the timer and
  only shows a message. In every other state, Idle and also ShortBreak, LongBreak and
  Paused, it starts a work interval: state Working, remaining and total time the
  configured work duration in seconds, the start time now, the countdown running, the
  counters and the records as they were.
\<close>

theorem startWork_guard:
  "(state t = WORKING \<longrightarrow> startWork now t = t\<lparr>shown := shown t @ [MsgAlreadyWorking]\<rparr>)
   \<and> (state t \<noteq> WORKING \<longrightarrow>
        state (startWork now t) = WORKING
      \<and> remainingTime (startWork now t) = workDuration (getConfig (configuration t)) * 60
      \<and> totalDuration (startWork now t) = workDuration (getConfig (configuration t)) * 60
      \<and> startTime (startWork now t) = Some now
      \<and> intervalId (startWork now t)
      \<and> completedPomodoros (startWork now t) = completedPomodoros t
      \<and> consecutivePomodoros (startWork now t) = consecutivePomodoros t
      \<and> pomodoroRecords (startWork now t) = pomodoroRecords t
      \<and> shown (startWork now t) =
          shown t @ [MsgWorkStarted (workDuration (getConfig (configuration t)))])"
  by (simp add: startWork_working startWork_starts Let_def)

theorem startWork_guard_witness:
  "state (startWork 1000 idleTimer) = WORKING
   \<and> startWork 2000 (startWork 1000 idleTimer) =
       (startWork 1000 idleTimer)\<lparr>shown := [MsgWorkStarted 25, MsgAlreadyWorking]\<rparr>
   \<and> state idleTimer \<noteq> WORKING
   \<and> remainingTime (startWork 1000 idleTimer) = 1500"
proof -
  have i: "state idleTimer \<noteq> WORKING"
    by (simp add: idleTimer_def)
  have c: "workDuration (getConfig (configuration idleTimer)) = 25" "shown idleTimer = []"
    by (simp_all add: idleTimer_def getConfig_noConfiguration)
  have a: "state (startWork 1000 idleTimer) = WORKING
      \<and> remainingTime (startWork 1000 idleTimer) =
          workDuration (getConfig (configuration idleTimer)) * 60
      \<and> shown (startWork 1000 idleTimer) =
          shown idleTimer @ [MsgWorkStarted (workDuration (getConfig (configuration idleTimer)))]"
    using startWork_guard [of idleTimer 1000] i by blast
  then have w: "state (startWork 1000 idleTimer) = WORKING"
    by simp
  have b: "startWork 2000 (startWork 1000 idleTimer) =
      (startWork 1000 idleTimer)\<lparr>shown := shown (startWork 1000 idleTimer) @ [MsgAlreadyWorking]\<rparr>"
    using startWork_guard [of "startWork 1000 idleTimer" 2000] w by blast
  show ?thesis
    using a b i c by simp
qed

text \<open>
  C5 as stated fails in a break: \<^verbatim>\<open>startWork()\<close> one second before the short
  break after a first work interval ends puts the machine into Working with 1500 seconds
  left and a new start time.
\<close>

theorem startWork_in_break_counterexample:
  "ticks (ticksFrom 1500000 299) (ticks (ticksFrom 0 1500) (startWork 0 idleTimer)) =
     endingBreak
   \<and> state endingBreak = SHORT_BREAK
   \<and> state (startWork 1799500 endingBreak) = WORKING
   \<and> state (startWork 1799500 endingBreak) \<noteq> state endingBreak
   \<and> remainingTime endingBreak = 1
   \<and> remainingTime (startWork 1799500 endingBreak) = 1500
   \<and> startTime endingBreak = Some 1500000
   \<and> startTime (startWork 1799500 endingBreak) = Some 1799500"
proof -
  have b: "state endingBreak \<noteq> WORKING"
    by (simp add: endingBreak_def)
  have c: "configuration endingBreak = noConfiguration"
    by (simp add: endingBreak_def idleTimer_def)
  have "state (startWork 1799500 endingBreak) = WORKING
      \<and> remainingTime (startWork 1799500 endingBreak) = 1500
      \<and> startTime (startWork 1799500 endingBreak) = Some 1799500"
    unfolding startWork_starts [OF b] c
    by (simp add: Let_def getConfig_noConfiguration)
  then show ?thesis
    using endingBreak_reached by (simp add: endingBreak_def)
qed

section \<open>A paused timer and a new process\<close>

text \<open>
  C7: the snapshot has no field for the pause time and none for the state before the
  pause. When a new process restores a snapshot whose state is Paused, the state is
  Paused with the stored remaining time, the pause time is \<^verbatim>\<open>null\<close> and the previous
  state is the initial Idle, whatever the snapshot holds. \<^verbatim>\<open>resume()\<close> then leaves
  the timer as it is and only shows the message that the pause time is lost; after any
  number of calls of \<^verbatim>\<open>resume()\<close> the state is still Paused.
\<close>

theorem paused_snapshot_stuck:
  assumes "timerState t = Some s" and "saved_state s = PAUSED"
  shows "state (activate now t) = PAUSED
       \<and> remainingTime (activate now t) = saved_remainingTime s
       \<and> \<not> intervalId (activate now t)
       \<and> pauseTime (activate now t) = None
       \<and> previousState (activate now t) = IDLE
       \<and> resume later (activate now t) =
           (activate now t)\<lparr>shown := shown (activate now t) @ [MsgPauseTimeLost]\<rparr>
       \<and> state (run (resumeAt laters) (activate now t)) = PAUSED"
proof -
  have new: "timerState (newTimer t) = Some s"
    using assms(1) by (simp add: newTimer_def)
  have e: "activate now t = saveState now (loaded s (saved_remainingTime s) (newTimer t))"
    by (simp add: activate_eq restoreState_paused [OF new assms(2)])
  have f: "state (activate now t) = PAUSED" "pauseTime (activate now t) = None"
    "remainingTime (activate now t) = saved_remainingTime s"
    "\<not> intervalId (activate now t)" "previousState (activate now t) = IDLE"
    unfolding e using assms(2)
    by (simp_all add: loaded_def newTimer_def saveState_def saveTimerState_def)
  show ?thesis
    using f by (simp add: resume_lost resumes_lost)
qed

theorem paused_snapshot_stuck_witness:
  "timerState (pause 5000 (startWork 1000 idleTimer)) =
     Some (workSnapshot\<lparr>saved_state := PAUSED, saved_timestamp := 5000\<rparr>)
   \<and> saved_state (workSnapshot\<lparr>saved_state := PAUSED, saved_timestamp := 5000\<rparr>) = PAUSED
   \<and> state (activate 9000 (pause 5000 (startWork 1000 idleTimer))) = PAUSED
   \<and> remainingTime (activate 9000 (pause 5000 (startWork 1000 idleTimer))) = 1500
   \<and> state (resume 10000 (activate 9000 (pause 5000 (startWork 1000 idleTimer)))) = PAUSED
   \<and> shown (resume 10000 (activate 9000 (pause 5000 (startWork 1000 idleTimer)))) =
       [MsgPauseTimeLost]"
proof -
  let ?p = "pause 5000 (startWork 1000 idleTimer)"
  let ?s = "workSnapshot\<lparr>saved_state := PAUSED, saved_timestamp := 5000\<rparr>"
  have i: "state idleTimer \<noteq> WORKING"
    by (simp add: idleTimer_def)
  have c: "configuration idleTimer = noConfiguration"
    by (simp add: idleTimer_def)
  have h: "timerState ?p = Some ?s"
    unfolding startWork_starts [OF i] c
    by (simp add: pause_def Let_def getConfig_noConfiguration stopTimer_def updateStatusBar_def
        saveState_def saveTimerState_def showInformationMessage_def idleTimer_def
        workSnapshot_def)
  have s: "saved_state ?s = PAUSED" "saved_remainingTime ?s = 1500"
    by (simp_all add: workSnapshot_def)
  have n: "shown (activate 9000 ?p) = []"
    by (simp add: activate_eq restoreState_paused [OF _ s(1)] h newTimer_def loaded_def
        saveState_def saveTimerState_def)
  have a: "state (activate 9000 ?p) = PAUSED
      \<and> remainingTime (activate 9000 ?p) = saved_remainingTime ?s
      \<and> resume 10000 (activate 9000 ?p) =
          (activate 9000 ?p)\<lparr>shown := shown (activate 9000 ?p) @ [MsgPauseTimeLost]\<rparr>"
    using paused_snapshot_stuck [OF h s(1), of 9000 10000] by blast
  show ?thesis
    using a h s n by simp
qed

section \<open>A duration configured as 0\<close>

text \<open>
  C8, as amended: the countdown's callback completes the interval whenever at most one
  second remains when it runs, so an interval that starts with no time left completes on
  its first callback. A duration configured as 0 minutes does not give such a start:
  \<^verbatim>\<open>getConfig\<close> never returns a duration of 0, it puts the default in its place
  (25, 5 and 15 minutes), so a work interval started with the work duration configured as
  0 is still Working after the first callback, with 1499 seconds left and no record
  appended. A negative work duration does complete on the first callback.
\<close>

theorem zero_duration:
  "(intervalId t \<and> remainingTime t \<le> 1 \<longrightarrow>
      tick later t = handleTimerEnd later (t\<lparr>remainingTime := remainingTime t - 1\<rparr>))
   \<and> workDuration (getConfig c) \<noteq> 0
   \<and> shortBreakDuration (getConfig c) \<noteq> 0
   \<and> longBreakDuration (getConfig c) \<noteq> 0
   \<and> (cfg_workDuration c = Some 0 \<longrightarrow> workDuration (getConfig c) = 25)
   \<and> (cfg_shortBreakDuration c = Some 0 \<longrightarrow> shortBreakDuration (getConfig c) = 5)
   \<and> (cfg_longBreakDuration c = Some 0 \<longrightarrow> longBreakDuration (getConfig c) = 15)
   \<and> (state t \<noteq> WORKING \<and> cfg_workDuration (configuration t) = Some 0 \<longrightarrow>
        state (tick later (startWork now t)) = WORKING
      \<and> remainingTime (tick later (startWork now t)) = 1499
      \<and> pomodoroRecords (tick later (startWork now t)) = pomodoroRecords t)
   \<and> (state t \<noteq> WORKING \<and> workDuration (getConfig (configuration t)) < 0 \<longrightarrow>
        (state (tick later (startWork now t)) = SHORT_BREAK
          \<or> state (tick later (startWork now t)) = LONG_BREAK)
      \<and> pomodoroRecords (tick later (startWork now t)) =
          pomodoroRecords t @
            [\<lparr>r_startTime = Some now, r_endTime = later,
              r_duration = workDuration (getConfig (configuration t)), r_completed = True\<rparr>])"
proof (intro conjI impI)
  show "tick later t = handleTimerEnd later (t\<lparr>remainingTime := remainingTime t - 1\<rparr>)"
    if "intervalId t \<and> remainingTime t \<le> 1"
    using that by (simp add: tick_last_second)
  show "workDuration (getConfig c) \<noteq> 0" "shortBreakDuration (getConfig c) \<noteq> 0"
    "longBreakDuration (getConfig c) \<noteq> 0"
    by (simp_all add: getConfig_def orDefault_nonzero)
  show "workDuration (getConfig c) = 25" if "cfg_workDuration c = Some 0"
    using that by (simp add: getConfig_def orDefault_zero)
  show "shortBreakDuration (getConfig c) = 5" if "cfg_shortBreakDuration c = Some 0"
    using that by (simp add: getConfig_def orDefault_zero)
  show "longBreakDuration (getConfig c) = 15" if "cfg_longBreakDuration c = Some 0"
    using that by (simp add: getConfig_def orDefault_zero)
next
  assume a: "state t \<noteq> WORKING \<and> cfg_workDuration (configuration t) = Some 0"
  then have d: "workDuration (getConfig (configuration t)) = 25"
    by (simp add: getConfig_def orDefault_zero)
  have nw: "state t \<noteq> WORKING"
    using a by simp
  have s: "intervalId (startWork now t)" "1 < remainingTime (startWork now t)"
    unfolding startWork_starts [OF nw] by (simp_all add: Let_def d)
  have e: "tick later (startWork now t) =
      saveState later ((startWork now t)\<lparr>remainingTime := remainingTime (startWork now t) - 1\<rparr>)"
    using s by (rule tick_counting)
  show "state (tick later (startWork now t)) = WORKING"
    unfolding e
    by (simp add: startWork_starts [OF nw] Let_def saveState_def saveTimerState_def)
  show "remainingTime (tick later (startWork now t)) = 1499"
    unfolding e
    by (simp add: startWork_starts [OF nw] Let_def d saveState_def saveTimerState_def)
  show "pomodoroRecords (tick later (startWork now t)) = pomodoroRecords t"
    unfolding e
    by (simp add: startWork_starts [OF nw] Let_def saveState_def saveTimerState_def)
next
  assume a: "state t \<noteq> WORKING \<and> workDuration (getConfig (configuration t)) < 0"
  then have nw: "state t \<noteq> WORKING" and neg: "workDuration (getConfig (configuration t)) < 0"
    by simp_all
  let ?t1 = "(startWork now t)\<lparr>remainingTime := remainingTime (startWork now t) - 1\<rparr>"
  have s: "intervalId (startWork now t)" "remainingTime (startWork now t) \<le> 1"
    unfolding startWork_starts [OF nw] using neg by (simp_all add: Let_def)
  have e: "tick later (startWork now t) = handleTimerEnd later ?t1"
    using s by (rule tick_last_second)
  have w: "state ?t1 = WORKING"
    unfolding startWork_starts [OF nw] by (simp add: Let_def)
  have f: "pomodoroRecords ?t1 = pomodoroRecords t" "startTime ?t1 = Some now"
    "configuration ?t1 = configuration t"
    unfolding startWork_starts [OF nw] by (simp_all add: Let_def)
  show "state (tick later (startWork now t)) = SHORT_BREAK
      \<or> state (tick later (startWork now t)) = LONG_BREAK"
    unfolding e handleTimerEnd_working [OF w] by (simp add: Let_def)
  show "pomodoroRecords (tick later (startWork now t)) =
      pomodoroRecords t @
        [\<lparr>r_startTime = Some now, r_endTime = later,
          r_duration = workDuration (getConfig (configuration t)), r_completed = True\<rparr>]"
    unfolding e handleTimerEnd_working [OF w] by (simp add: Let_def f)
qed

theorem zero_duration_witness:
  "state zeroMinuteTimer \<noteq> WORKING
   \<and> cfg_workDuration (configuration zeroMinuteTimer) = Some 0
   \<and> workDuration (getConfig (configuration zeroMinuteTimer)) = 25
   \<and> remainingTime (tick 1000 (startWork 0 zeroMinuteTimer)) = 1499"
proof -
  have a: "state zeroMinuteTimer \<noteq> WORKING"
    "cfg_workDuration (configuration zeroMinuteTimer) = Some 0"
    by (simp_all add: zeroMinuteTimer_def idleTimer_def noConfiguration_def)
  have "workDuration (getConfig (configuration zeroMinuteTimer)) = 25"
    using zero_duration [of zeroMinuteTimer 1000 "configuration zeroMinuteTimer" 0] a
    by blast
  moreover have "remainingTime (tick 1000 (startWork 0 zeroMinuteTimer)) = 1499"
    using zero_duration [of zeroMinuteTimer 1000 "configuration zeroMinuteTimer" 0] a
    by blast
  ultimately show ?thesis
    using a by simp
qed

text \<open>
  C8 as stated fails: with the work duration configured as 0 minutes, the interval
  started from Idle has not completed on the first callback.
\<close>

theorem zero_duration_counterexample:
  "cfg_workDuration (configuration zeroMinuteTimer) = Some 0
   \<and> state zeroMinuteTimer = IDLE
   \<and> state (tick 1000 (startWork 0 zeroMinuteTimer)) = WORKING
   \<and> remainingTime (tick 1000 (startWork 0 zeroMinuteTimer)) = 1499
   \<and> completedPomodoros (tick 1000 (startWork 0 zeroMinuteTimer)) = 0
   \<and> pomodoroRecords (tick 1000 (startWork 0 zeroMinuteTimer)) = []"
proof -
  have nw: "state zeroMinuteTimer \<noteq> WORKING"
    by (simp add: zeroMinuteTimer_def idleTimer_def)
  have d: "workDuration (getConfig (configuration zeroMinuteTimer)) = 25"
    by (simp add: zeroMinuteTimer_def idleTimer_def noConfiguration_def getConfig_def
        orDefault_def)
  have s: "intervalId (startWork 0 zeroMinuteTimer)"
    "1 < remainingTime (startWork 0 zeroMinuteTimer)"
    unfolding startWork_starts [OF nw] by (simp_all add: Let_def d)
  have e: "tick 1000 (startWork 0 zeroMinuteTimer) =
      saveState 1000 ((startWork 0 zeroMinuteTimer)
        \<lparr>remainingTime := remainingTime (startWork 0 zeroMinuteTimer) - 1\<rparr>)"
    using s by (rule tick_counting)
  have f: "state (tick 1000 (startWork 0 zeroMinuteTimer)) = WORKING"
    "remainingTime (tick 1000 (startWork 0 zeroMinuteTimer)) = 1499"
    "completedPomodoros (tick 1000 (startWork 0 zeroMinuteTimer)) = completedPomodoros zeroMinuteTimer"
    "pomodoroRecords (tick 1000 (startWork 0 zeroMinuteTimer)) = pomodoroRecords zeroMinuteTimer"
    unfolding e
    by (simp_all add: startWork_starts [OF nw] Let_def d saveState_def saveTimerState_def)
  show ?thesis
    using f by (simp add: zeroMinuteTimer_def idleTimer_def noConfiguration_def)
qed

section \<open>The last seven days\<close>

text \<open>
  C9: for every record log \<^verbatim>\<open>getLast7DaysData\<close> returns exactly seven entries, for
  the days 6, 5, 4, 3, 2, 1 and 0 days before today in this order, so the oldest day
  first and today last. Each entry carries the count and the summed durations of the
  completed records whose start time lies in \<open>[dayStart, dayStart + 24 h)\<close> for the start
  of its day. A day with no such record has the count 0 and the work time 0, and for the
  empty log all seven entries are zero.
\<close>

theorem last7Days:
  "getLast7DaysData localMidnight localeDate t =
     map (\<lambda>i. dayAggregate (localMidnight i) (localeDate i) (getPomodoroRecords t))
       [6, 5, 4, 3, 2, 1, 0]
   \<and> length (getLast7DaysData localMidnight localeDate t) = 7
   \<and> last (getLast7DaysData localMidnight localeDate t) =
       dayAggregate (localMidnight 0) (localeDate 0) (getPomodoroRecords t)
   \<and> ((\<forall>r \<in> set records. \<not> (r_completed r \<and> dayStart \<le> toNumber (r_startTime r)
          \<and> toNumber (r_startTime r) < dayStart + 24 * 60 * 60 * 1000)) \<longrightarrow>
        dayAggregate dayStart label records = \<lparr>date = label, completed = 0, workTime = 0\<rparr>)
   \<and> (getPomodoroRecords t = [] \<longrightarrow>
        getLast7DaysData localMidnight localeDate t =
          map (\<lambda>i. \<lparr>date = localeDate i, completed = 0, workTime = 0\<rparr>) [6, 5, 4, 3, 2, 1, 0])"
proof -
  have e: "getLast7DaysData localMidnight localeDate t =
     map (\<lambda>i. dayAggregate (localMidnight i) (localeDate i) (getPomodoroRecords t))
       [6, 5, 4, 3, 2, 1, 0]"
    by (simp add: getLast7DaysData_def last7Loop_six dayData_aggregate)
  have z: "dayAggregate d l [] = \<lparr>date = l, completed = 0, workTime = 0\<rparr>" for d l
    by (simp add: dayAggregate_def)
  show ?thesis
    unfolding e using dayAggregate_none [of records dayStart label]
    by (simp add: z)
qed


theorem last7Days_witness:
  "getPomodoroRecords idleTimer = []
   \<and> getLast7DaysData (\<lambda>i. (10 - i) * 861840000) (\<lambda>i. ''day'') idleTimer =
       map (\<lambda>i. \<lparr>date = ''day'', completed = 0, workTime = 0\<rparr>) [6 :: int, 5, 4, 3, 2, 1, 0]
   \<and> length (getLast7DaysData (\<lambda>i. (10 - i) * 861840000) (\<lambda>i. ''day'') idleTimer) = 7
   \<and> dayAggregate 8618400000 ''day''
         [\<lparr>r_startTime = Some 5, r_endTime = 60005, r_duration = 1, r_completed = True\<rparr>] =
       \<lparr>date = ''day'', completed = 0, workTime = 0\<rparr>"
proof -
  have e: "getPomodoroRecords idleTimer = []"
    by (simp add: getPomodoroRecords_def idleTimer_def)
  have o: "\<forall>r \<in> set [\<lparr>r_startTime = Some 5, r_endTime = 60005, r_duration = 1,
        r_completed = True\<rparr>].
      \<not> (r_completed r \<and> 8618400000 \<le> toNumber (r_startTime r)
        \<and> toNumber (r_startTime r) < 8618400000 + 24 * 60 * 60 * 1000)"
    by (simp add: toNumber_def)
  show ?thesis
    using last7Days [of "\<lambda>i. (10 - i) * 861840000" "\<lambda>i. ''day''" idleTimer
        "[\<lparr>r_startTime = Some 5, r_endTime = 60005, r_duration = 1, r_completed = True\<rparr>]"
        8618400000 "''day''"] e o
    by blast
qed

section \<open>The export's rows\<close>

text \<open>
  C10, as amended: when no localized time contains a line feed, splitting the output of
  \<^verbatim>\<open>exportToCSV\<close> at the line feeds gives the header row, then one row per record
  of \<^verbatim>\<open>getPomodoroRecords\<close> in order, then one empty piece, because the output ends
  with a line feed. So there are as many pieces as records plus two, and as many
  non-empty rows as records plus one.
\<close>

theorem export_rows:
  assumes "\<forall>ms. CHR 0x0A \<notin> set (toLocaleString ms)"
  shows "splitOn (CHR 0x0A) (exportToCSV toLocaleString t) =
           butlast csvHeader
             # map (\<lambda>r. butlast (csvRow toLocaleString r)) (getPomodoroRecords t) @ [[]]
       \<and> length (splitOn (CHR 0x0A) (exportToCSV toLocaleString t)) =
           length (getPomodoroRecords t) + 2
       \<and> length (filter (\<lambda>row. row \<noteq> []) (splitOn (CHR 0x0A) (exportToCSV toLocaleString t))) =
           length (getPomodoroRecords t) + 1"
proof -
  have h: "csvHeader = butlast csvHeader @ [CHR 0x0A]" "CHR 0x0A \<notin> set (butlast csvHeader)"
    "butlast csvHeader \<noteq> []"
    by (simp_all add: csvHeader_def)
  have c: "exportToCSV toLocaleString t =
      butlast csvHeader @ CHR 0x0A # concat (map (csvRow toLocaleString) (getPomodoroRecords t))"
    using h(1) by (simp add: exportToCSV_concat)
  have "splitOn (CHR 0x0A) (exportToCSV toLocaleString t) =
      splitOn (CHR 0x0A) (butlast csvHeader @ CHR 0x0A
        # concat (map (csvRow toLocaleString) (getPomodoroRecords t)))"
    by (simp only: c)
  also have "\<dots> = butlast csvHeader
      # splitOn (CHR 0x0A) (concat (map (csvRow toLocaleString) (getPomodoroRecords t)))"
    using h(2) by (rule splitOn_line)
  finally have e: "splitOn (CHR 0x0A) (exportToCSV toLocaleString t) =
      butlast csvHeader
        # map (\<lambda>r. butlast (csvRow toLocaleString r)) (getPomodoroRecords t) @ [[]]"
    by (simp only: splitOn_rows [OF assms])
  have f: "filter (\<lambda>row. row \<noteq> [])
      (map (\<lambda>r. butlast (csvRow toLocaleString r)) (getPomodoroRecords t)) =
      map (\<lambda>r. butlast (csvRow toLocaleString r)) (getPomodoroRecords t)"
    using csvRow_line(3) [OF assms] by (simp add: filter_id_conv)
  show ?thesis
    unfolding e using h(3) by (simp add: f)
qed

theorem export_rows_witness:
  "(\<forall>ms. CHR 0x0A \<notin> set (showInt ms))
   \<and> length (getPomodoroRecords endingBreak) = 1
   \<and> length (splitOn (CHR 0x0A) (exportToCSV showInt endingBreak)) = 3
   \<and> length (filter (\<lambda>row. row \<noteq> []) (splitOn (CHR 0x0A) (exportToCSV showInt endingBreak))) = 2"
proof -
  have h: "\<forall>ms. CHR 0x0A \<notin> set (showInt ms)"
    by (simp add: showInt_no_lf)
  have l: "length (getPomodoroRecords endingBreak) = 1"
    by (simp add: getPomodoroRecords_def endingBreak_def)
  have "length (splitOn (CHR 0x0A) (exportToCSV showInt endingBreak)) =
        length (getPomodoroRecords endingBreak) + 2
      \<and> length (filter (\<lambda>row. row \<noteq> [])
          (splitOn (CHR 0x0A) (exportToCSV showInt endingBreak))) =
        length (getPomodoroRecords endingBreak) + 1"
    using export_rows [OF h, of endingBreak] by blast
  then show ?thesis
    using h l by simp
qed

text \<open>
  C10 as stated fails already for the empty log: the export is the header line with its
  line feed, and splitting it at the line feed gives two pieces, the header and an empty
  one, not one.
\<close>

theorem export_rows_counterexample:
  "getPomodoroRecords idleTimer = []
   \<and> splitOn (CHR 0x0A) (exportToCSV showInt idleTimer) = [''start,end,duration(min),status'', []]
   \<and> length (splitOn (CHR 0x0A) (exportToCSV showInt idleTimer)) \<noteq>
       length (getPomodoroRecords idleTimer) + 1"
  by (simp add: exportToCSV_def getPomodoroRecords_def idleTimer_def csvHeader_def)

end
